theory Spec2Isabelle
  imports Main "HOL-Library.Sublist"
begin

section \<open>Python strings\<close>

text \<open>
  A Python \<open>str\<close> is a sequence of Unicode code points, and \<open>len\<close> counts code points.
  A code point is modelled as a natural number, a string as a list of them. The fixed
  ASCII texts of the program are written as HOL string literals and lifted with \<open>lit\<close>.
\<close>

type_synonym pychar = nat
type_synonym pystr = "pychar list"

definition lit :: "string \<Rightarrow> pystr" where
  "lit s = map of_char s"

definition NL :: pychar where
  "NL = 10"

definition SP :: pychar where
  "SP = 32"

definition TAB :: pychar where
  "TAB = 9"

text \<open>
  \<open>str.isspace\<close> on one character: the code points CPython classifies as whitespace
  (U+0009..U+000D, U+001C..U+0020, U+0085, U+00A0, U+1680, U+2000..U+200A, U+2028,
  U+2029, U+202F, U+205F, U+3000).
\<close>

definition py_isspace :: "pychar \<Rightarrow> bool" where
  "py_isspace c =
     ((9 \<le> c \<and> c \<le> 13) \<or> (28 \<le> c \<and> c \<le> 32) \<or> c = 133 \<or> c = 160 \<or> c = 5760
      \<or> (8192 \<le> c \<and> c \<le> 8202) \<or> c = 8232 \<or> c = 8233 \<or> c = 8239 \<or> c = 8287
      \<or> c = 12288)"

text \<open>\<open>s.strip()\<close>: whitespace removed from both ends.\<close>

definition py_strip :: "pystr \<Rightarrow> pystr" where
  "py_strip s = rev (dropWhile py_isspace (rev (dropWhile py_isspace s)))"

text \<open>\<open>not s.strip()\<close>: the test every operation uses for a blank argument.\<close>

definition py_blank :: "pystr \<Rightarrow> bool" where
  "py_blank s = (py_strip s = [])"

text \<open>\<open>sub in s\<close> on strings: \<open>sub\<close> occurs in \<open>s\<close> as a contiguous run.\<close>

fun py_in :: "pystr \<Rightarrow> pystr \<Rightarrow> bool" where
  "py_in sub [] = (sub = [])"
| "py_in sub (c # cs) = (prefix sub (c # cs) \<or> py_in sub cs)"

section \<open>Values reaching \<open>estimate_tokens\<close>\<close>

text \<open>
  The objects \<open>estimate_tokens\<close> distinguishes: a string, a list or tuple, a dict, a
  Pydantic model (an object with \<open>model_dump\<close>, given here by its dumped fields in
  declaration order), and anything else, of which \<open>None\<close>, booleans and integers are
  modelled with the length of their \<open>str()\<close>.
\<close>

datatype pyobj =
    PStr pystr
  | PList "pyobj list"
  | PDict "(pyobj \<times> pyobj) list"
  | PModel "(pystr \<times> pyobj) list"
  | PNone
  | PBool bool
  | PInt int

text \<open>\<open>str(i)\<close> of an integer: its decimal digits, after a minus sign when negative.\<close>

fun digits :: "nat \<Rightarrow> pystr" where
  "digits n = (if n < 10 then [48 + n] else digits (n div 10) @ [48 + n mod 10])"

declare digits.simps [simp del]

definition py_str_int :: "int \<Rightarrow> pystr" where
  "py_str_int i = (if i < 0 then 45 # digits (nat (- i)) else digits (nat i))"

text \<open>\<open>obj.model_dump()\<close>: the dict of the model's fields, keyed by field name.\<close>

definition model_dump :: "(pystr \<times> pyobj) list \<Rightarrow> pyobj" where
  "model_dump fields = PDict (map (\<lambda>(k, v). (PStr k, v)) fields)"

text \<open>
  \<open>estimate_tokens\<close> (server.py, 180-191). \<open>//\<close> is floor division; \<open>str(None)\<close> is
  \<open>None\<close>, \<open>str(True)\<close> is \<open>True\<close>, \<open>str(False)\<close> is \<open>False\<close>.
\<close>

function estimate_tokens :: "pyobj \<Rightarrow> int" where
  "estimate_tokens (PStr s) = max 1 (int (length s) div 4)"
| "estimate_tokens (PList xs) = sum_list (map estimate_tokens xs)"
| "estimate_tokens (PDict kvs) =
     sum_list (map (\<lambda>(k, v). estimate_tokens k + estimate_tokens v) kvs)"
| "estimate_tokens (PModel fields) = estimate_tokens (model_dump fields)"
| "estimate_tokens PNone = max 1 (4 div 4)"
| "estimate_tokens (PBool b) = max 1 ((if b then 4 else 5) div 4)"
| "estimate_tokens (PInt i) = max 1 (int (length (py_str_int i)) div 4)"
  by pat_completeness auto
termination
proof (relation "measure (\<lambda>obj. 2 * size obj + (case obj of PModel _ \<Rightarrow> 1 | _ \<Rightarrow> 0))")
  show "wf (measure (\<lambda>obj. 2 * size obj + (case obj of PModel _ \<Rightarrow> 1 | _ \<Rightarrow> 0)))"
    by simp
next
  fix xs :: "pyobj list" and x
  assume "x \<in> set xs"
  then show "(x, PList xs)
      \<in> measure (\<lambda>obj. 2 * size obj + (case obj of PModel _ \<Rightarrow> 1 | _ \<Rightarrow> 0))"
    by (induction xs) (auto split: pyobj.splits)
next
  fix kvs :: "(pyobj \<times> pyobj) list" and p k v
  assume "p \<in> set kvs" and "(k, v) = p"
  then show "(k, PDict kvs)
      \<in> measure (\<lambda>obj. 2 * size obj + (case obj of PModel _ \<Rightarrow> 1 | _ \<Rightarrow> 0))"
    by (induction kvs) (auto split: pyobj.splits)
next
  fix kvs :: "(pyobj \<times> pyobj) list" and p k v
  assume "p \<in> set kvs" and "(k, v) = p"
  then show "(v, PDict kvs)
      \<in> measure (\<lambda>obj. 2 * size obj + (case obj of PModel _ \<Rightarrow> 1 | _ \<Rightarrow> 0))"
    by (induction kvs) (auto split: pyobj.splits)
next
  fix fields :: "(pystr \<times> pyobj) list"
  show "(model_dump fields, PModel fields)
      \<in> measure (\<lambda>obj. 2 * size obj + (case obj of PModel _ \<Rightarrow> 1 | _ \<Rightarrow> 0))"
    by (induction fields) (auto simp: model_dump_def)
qed

text \<open>
  The estimate the specification describes: the character count divided by four and
  rounded up, at least 1. It is compared with \<open>estimate_tokens\<close> below.
\<close>

definition chars_per_unit_rounded_up :: "pystr \<Rightarrow> int" where
  "chars_per_unit_rounded_up s = max 1 ((int (length s) + 3) div 4)"

section \<open>Result models\<close>

text \<open>The Pydantic result classes (server.py, 139-177), one record each.\<close>

record DocsetResult =
  d_name :: pystr
  d_identifier :: pystr
  d_platform :: pystr
  d_full_text_search :: pystr
  d_notice :: "pystr option"

record DocsetResults =
  docsets :: "DocsetResult list"
  docsets_error :: "pystr option"

record SearchResult =
  s_name :: pystr
  s_type :: pystr
  s_platform :: "pystr option"
  s_load_url :: pystr
  s_docset :: "pystr option"
  s_description :: "pystr option"
  s_language :: "pystr option"
  s_tags :: "pystr option"

record SearchResults =
  results :: "SearchResult list"
  search_error :: "pystr option"

record DocumentationContent =
  c_load_url :: pystr
  c_title :: pystr
  c_content :: pystr
  c_error :: "pystr option"

text \<open>An \<open>Optional[str]\<close> field as a Python object.\<close>

definition opt_str :: "pystr option \<Rightarrow> pyobj" where
  "opt_str v = (case v of None \<Rightarrow> PNone | Some s \<Rightarrow> PStr s)"

text \<open>The two list item models as objects with \<open>model_dump\<close>, fields in declaration order.\<close>

definition DocsetResult_obj :: "DocsetResult \<Rightarrow> pyobj" where
  "DocsetResult_obj d = PModel
     [(lit ''name'', PStr (d_name d)),
      (lit ''identifier'', PStr (d_identifier d)),
      (lit ''platform'', PStr (d_platform d)),
      (lit ''full_text_search'', PStr (d_full_text_search d)),
      (lit ''notice'', opt_str (d_notice d))]"

definition SearchResult_obj :: "SearchResult \<Rightarrow> pyobj" where
  "SearchResult_obj r = PModel
     [(lit ''name'', PStr (s_name r)),
      (lit ''type'', PStr (s_type r)),
      (lit ''platform'', opt_str (s_platform r)),
      (lit ''load_url'', PStr (s_load_url r)),
      (lit ''docset'', opt_str (s_docset r)),
      (lit ''description'', opt_str (s_description r)),
      (lit ''language'', opt_str (s_language r)),
      (lit ''tags'', opt_str (s_tags r))]"

section \<open>JSON values, HTTP responses and exceptions\<close>

text \<open>
  What \<open>json.load\<close> and \<open>response.json()\<close> return. \<open>null\<close> is Python's \<open>None\<close>, an
  object is a \<open>dict\<close> (given by its items), an array a \<open>list\<close>. The value of a float
  never matters to the program; it is kept as its literal.
\<close>

datatype json =
    JNull
  | JBool bool
  | JInt int
  | JFloat pystr
  | JStr pystr
  | JArr "json list"
  | JObj "(pystr \<times> json) list"

text \<open>
  An \<open>httpx\<close> response: \<open>status_code\<close>, \<open>reason_phrase\<close>, \<open>text\<close> (here \<open>resp_text\<close>), and what
  \<open>response.json()\<close> gives (\<open>None\<close> when the body does not parse, in which case the
  call raises \<open>JSONDecodeError\<close>).
\<close>

record response =
  status_code :: int
  reason_phrase :: pystr
  resp_text :: pystr
  json_body :: "json option"

text \<open>
  The exception classes the program raises, catches by name, or lets reach a catch-all
  handler. Every class here derives from \<open>Exception\<close>. \<open>HTTPStatusError\<close> carries its
  response. \<open>OtherError\<close> stands for any further \<open>Exception\<close> subclass the environment
  raises (a timeout, a transport error, an I/O error other than a missing file), with a
  tag that tells two of them apart.
\<close>

datatype exn =
    FileNotFoundError
  | JSONDecodeError
  | KeyError
  | AttributeError
  | TypeError
  | ValidationError
  | CalledProcessError
  | HTTPStatusError response
  | OtherError nat

text \<open>Sequencing of steps that may raise.\<close>

definition bind_exn :: "exn + 'a \<Rightarrow> ('a \<Rightarrow> exn + 'b) \<Rightarrow> exn + 'b" where
  "bind_exn m f = (case m of Inl e \<Rightarrow> Inl e | Inr v \<Rightarrow> f v)"

text \<open>
  \<open>response.raise_for_status()\<close> of httpx: a response outside the success class 2xx
  raises \<open>HTTPStatusError\<close>.
\<close>

definition raise_for_status :: "response \<Rightarrow> exn + response" where
  "raise_for_status r =
     (if 200 \<le> status_code r \<and> status_code r \<le> 299 then Inr r else Inl (HTTPStatusError r))"

definition response_json :: "response \<Rightarrow> exn + json" where
  "response_json r = (case json_body r of None \<Rightarrow> Inl JSONDecodeError | Some j \<Rightarrow> Inr j)"

text \<open>\<open>d[key]\<close> and \<open>d.get(key)\<close> on a dict; \<open>d.get\<close> gives \<open>None\<close> for a missing key.\<close>

definition getitem :: "(pystr \<times> json) list \<Rightarrow> pystr \<Rightarrow> exn + json" where
  "getitem kvs key = (case map_of kvs key of None \<Rightarrow> Inl KeyError | Some v \<Rightarrow> Inr v)"

definition dict_get :: "(pystr \<times> json) list \<Rightarrow> pystr \<Rightarrow> json" where
  "dict_get kvs key = (case map_of kvs key of None \<Rightarrow> JNull | Some v \<Rightarrow> v)"

text \<open>
  \<open>len(v)\<close> followed by \<open>for item in v\<close>: a list gives its elements, a string its
  characters as one-character strings, a dict its keys; anything else raises \<open>TypeError\<close>.
\<close>

definition py_iter :: "json \<Rightarrow> exn + json list" where
  "py_iter v =
     (case v of
        JArr xs \<Rightarrow> Inr xs
      | JStr s \<Rightarrow> Inr (map (\<lambda>c. JStr [c]) s)
      | JObj kvs \<Rightarrow> Inr (map (\<lambda>kv. JStr (fst kv)) kvs)
      | _ \<Rightarrow> Inl TypeError)"

text \<open>Pydantic's validation of a \<open>str\<close> field and of an \<open>Optional[str]\<close> field.\<close>

definition valid_str :: "json \<Rightarrow> exn + pystr" where
  "valid_str v = (case v of JStr s \<Rightarrow> Inr s | _ \<Rightarrow> Inl ValidationError)"

definition valid_opt_str :: "json \<Rightarrow> exn + pystr option" where
  "valid_opt_str v =
     (case v of JStr s \<Rightarrow> Inr (Some s) | JNull \<Rightarrow> Inr None | _ \<Rightarrow> Inl ValidationError)"

section \<open>The environment\<close>

text \<open>
  The two application variants, by bundle identifier: \<open>com.kapeli.dashdoc\<close> and
  \<open>com.kapeli.dash-setapp\<close>.
\<close>

datatype variant = DashDoc | DashSetapp

text \<open>The base address \<open>http://127.0.0.1:{port}\<close>, kept as its port.\<close>

datatype base_url = LocalHttp json

text \<open>The \<open>GET\<close> requests the program sends.\<close>

datatype request =
    Health json
  | DocsetsList base_url
  | Search base_url pystr pystr bool int
  | EnableFts base_url pystr
  | Fetch pystr

text \<open>
  Everything the program does to the world outside: \<open>pgrep -f Dash\<close>, \<open>open -g -j -b\<close>
  of a variant, \<open>defaults write\<close> of \<open>DHAPIServerEnabled\<close> for a variant, \<open>time.sleep\<close>,
  reading \<open>status.json\<close>, and an HTTP \<open>GET\<close>. Log calls on the context are not actions
  and are taken not to raise.
\<close>

datatype action =
    Pgrep
  | OpenApp variant
  | DefaultsWrite variant
  | Sleep nat
  | ReadStatus
  | Get request

type_synonym trace = "action list"

text \<open>
  What the world answers: \<open>subprocess.run\<close> returns with a return code or raises,
  reading and parsing the status file gives a JSON value or raises, \<open>client.get\<close> gives
  a response or raises.
\<close>

datatype proc_outcome = Exited int | RunRaised exn

datatype status_read = Loaded json | ReadRaised exn

datatype http_outcome = Responded response | GetRaised exn

text \<open>
  The HTML tree BeautifulSoup builds: text nodes and elements with a tag name,
  attributes and children. Comments and the doctype are left out: they reach neither
  the title nor the converted text.
\<close>

datatype node = Text pystr | Element pystr "(pystr \<times> pystr) list" "node list"

text \<open>
  The environment of one call. Each answer may depend on everything done so far, so an
  answer is a function of the trace of earlier actions. \<open>str_exn\<close> is \<open>str(e)\<close>,
  \<open>parse_html\<close> is \<open>BeautifulSoup(html, 'html.parser')\<close>, \<open>get_text\<close> is
  \<open>element.get_text(strip=True)\<close> and \<open>markdownify\<close> is
  \<open>md(str(soup), heading_style="ATX", bullets="-")\<close>; the last three are library code,
  and the parser and the converter may raise.
\<close>

record env =
  pgrep :: "trace \<Rightarrow> proc_outcome"
  open_app :: "trace \<Rightarrow> variant \<Rightarrow> proc_outcome"
  defaults_write :: "trace \<Rightarrow> variant \<Rightarrow> proc_outcome"
  status_file :: "trace \<Rightarrow> status_read"
  http_get :: "trace \<Rightarrow> request \<Rightarrow> http_outcome"
  str_exn :: "exn \<Rightarrow> pystr"
  parse_html :: "pystr \<Rightarrow> exn + node list"
  get_text :: "node \<Rightarrow> pystr"
  markdownify :: "node list \<Rightarrow> exn + pystr"

text \<open>\<open>subprocess.run(..., check=True)\<close>: a non-zero return code raises.\<close>

definition checked :: "proc_outcome \<Rightarrow> exn + int" where
  "checked out =
     (case out of
        RunRaised e \<Rightarrow> Inl e
      | Exited rc \<Rightarrow> if rc \<noteq> 0 then Inl CalledProcessError else Inr rc)"

section \<open>Connection establishment\<close>

text \<open>\<open>check_api_health\<close> (server.py, 13-24): every exception is a \<open>False\<close>.\<close>

definition check_api_health :: "env \<Rightarrow> json \<Rightarrow> trace \<Rightarrow> bool \<times> trace" where
  "check_api_health env port tr =
     ((case http_get env tr (Health port) of
         GetRaised e \<Rightarrow> False
       | Responded r \<Rightarrow> (case raise_for_status r of Inl e \<Rightarrow> False | Inr _ \<Rightarrow> True)),
      tr @ [Get (Health port)])"

text \<open>\<open>check_dash_running\<close> (86-97).\<close>

definition check_dash_running :: "env \<Rightarrow> trace \<Rightarrow> bool \<times> trace" where
  "check_dash_running env tr =
     ((case pgrep env tr of Exited rc \<Rightarrow> rc = 0 | RunRaised e \<Rightarrow> False), tr @ [Pgrep])"

text \<open>
  The \<open>try\<close> block of \<open>ensure_dash_running\<close> up to the wait (104-116): the first launch
  is not checked, the second is.
\<close>

definition launch_dash :: "env \<Rightarrow> trace \<Rightarrow> (exn + unit) \<times> trace" where
  "launch_dash env tr =
     (case open_app env tr DashDoc of
        RunRaised e \<Rightarrow> (Inl e, tr @ [OpenApp DashDoc])
      | Exited rc \<Rightarrow>
          (let tr1 = tr @ [OpenApp DashDoc] in
           if rc \<noteq> 0 then
             (case checked (open_app env tr1 DashSetapp) of
                Inl e \<Rightarrow> (Inl e, tr1 @ [OpenApp DashSetapp])
              | Inr _ \<Rightarrow> (Inr (), tr1 @ [OpenApp DashSetapp]))
           else (Inr (), tr1)))"

text \<open>\<open>ensure_dash_running\<close> (100-135).\<close>

definition ensure_dash_running :: "env \<Rightarrow> trace \<Rightarrow> bool \<times> trace" where
  "ensure_dash_running env tr =
     (let (running, tr1) = check_dash_running env tr in
      if \<not> running then
        (case launch_dash env tr1 of
           (Inl e, tr2) \<Rightarrow> (False, tr2)
         | (Inr _, tr2) \<Rightarrow>
             (let (running2, tr3) = check_dash_running env (tr2 @ [Sleep 4]) in
              if \<not> running2 then (False, tr3) else (True, tr3)))
      else (True, tr1))"

text \<open>
  \<open>get_dash_api_port\<close> (65-83). Only the three classes of the \<open>except\<close> clause give
  \<open>None\<close>; \<open>.get\<close> on a loaded value that is not a dict raises \<open>AttributeError\<close>, which
  the clause does not name.
\<close>

definition get_dash_api_port :: "env \<Rightarrow> trace \<Rightarrow> (exn + json option) \<times> trace" where
  "get_dash_api_port env tr =
     (let tr1 = tr @ [ReadStatus] in
      case status_file env tr of
        ReadRaised e \<Rightarrow>
          if e = FileNotFoundError \<or> e = JSONDecodeError \<or> e = KeyError then (Inr None, tr1)
          else (Inl e, tr1)
      | Loaded status_data \<Rightarrow>
          (case status_data of
             JObj kvs \<Rightarrow>
               (let port = dict_get kvs (lit ''port'') in
                if port = JNull then (Inr None, tr1)
                else
                  (let (healthy, tr2) = check_api_health env port tr1 in
                   if healthy then (Inr (Some port), tr2) else (Inr None, tr2)))
           | _ \<Rightarrow> (Inl AttributeError, tr1)))"

text \<open>
  The \<open>try\<close> block of \<open>working_api_base_url\<close> (36-57): the two setting writes, the
  wait, and the second look for the port. The handler (58-60) turns every exception
  into \<open>None\<close>.
\<close>

definition enable_api_server :: "env \<Rightarrow> trace \<Rightarrow> (exn + json option) \<times> trace" where
  "enable_api_server env tr =
     (case checked (defaults_write env tr DashDoc) of
        Inl e \<Rightarrow> (Inl e, tr @ [DefaultsWrite DashDoc])
      | Inr _ \<Rightarrow>
          (let tr1 = tr @ [DefaultsWrite DashDoc] in
           case checked (defaults_write env tr1 DashSetapp) of
             Inl e \<Rightarrow> (Inl e, tr1 @ [DefaultsWrite DashSetapp])
           | Inr _ \<Rightarrow> get_dash_api_port env (tr1 @ [DefaultsWrite DashSetapp] @ [Sleep 2])))"

text \<open>\<open>working_api_base_url\<close> (27-62).\<close>

definition working_api_base_url :: "env \<Rightarrow> trace \<Rightarrow> (exn + base_url option) \<times> trace" where
  "working_api_base_url env tr =
     (let (dash_running, tr1) = ensure_dash_running env tr in
      if \<not> dash_running then (Inr None, tr1)
      else
        (case get_dash_api_port env tr1 of
           (Inl e, tr2) \<Rightarrow> (Inl e, tr2)
         | (Inr (Some port), tr2) \<Rightarrow> (Inr (Some (LocalHttp port)), tr2)
         | (Inr None, tr2) \<Rightarrow>
             (case enable_api_server env tr2 of
                (Inl e, tr3) \<Rightarrow> (Inr None, tr3)
              | (Inr None, tr3) \<Rightarrow> (Inr None, tr3)
              | (Inr (Some port), tr3) \<Rightarrow> (Inr (Some (LocalHttp port)), tr3))))"

section \<open>The budgeting loop\<close>

definition token_limit :: int where
  "token_limit = 25000"

definition base_overhead :: int where
  "base_overhead = 100"

text \<open>
  The loop of \<open>list_installed_docsets\<close> (server.py, 230-247) and of
  \<open>search_documentation\<close> (340-360); the two differ only in the model built from each
  item and in its name. \<open>build\<close> constructs the model and may raise, \<open>est\<close> is the
  estimate of a built model, \<open>current_tokens\<close> the running total and \<open>limited\<close> the list
  built so far. \<open>break\<close> returns the list as it stands.
\<close>

fun budget_loop ::
  "('a \<Rightarrow> exn + 'b) \<Rightarrow> ('b \<Rightarrow> int) \<Rightarrow> 'a list \<Rightarrow> int \<Rightarrow> 'b list \<Rightarrow> exn + 'b list" where
  "budget_loop build est [] current_tokens limited = Inr limited"
| "budget_loop build est (x # xs) current_tokens limited =
     (case build x of
        Inl e \<Rightarrow> Inl e
      | Inr info \<Rightarrow>
          (let tokens = est info in
           if current_tokens + tokens > token_limit then Inr limited
           else budget_loop build est xs (current_tokens + tokens) (limited @ [info])))"

section \<open>Query operations\<close>

definition connect_error :: pystr where
  "connect_error = lit ''Failed to connect to Dash API Server. Please ensure Dash is running and the API server is enabled (in Dash Settings > Integration).''"

definition generic_advice :: pystr where
  "generic_advice = lit ''. Please ensure Dash is running and the API server is enabled (in Dash Settings > Integration).''"

text \<open>\<open>DocsetResults(error=...)\<close> and \<open>SearchResults(error=...)\<close>: the list is empty.\<close>

definition docsets_failure :: "pystr \<Rightarrow> DocsetResults" where
  "docsets_failure msg = \<lparr>docsets = [], docsets_error = Some msg\<rparr>"

definition search_failure :: "pystr \<Rightarrow> SearchResults" where
  "search_failure msg = \<lparr>results = [], search_error = Some msg\<rparr>"

text \<open>
  The construction of a \<open>DocsetResult\<close> from one item (231-237): subscripting
  something that is not a dict raises \<open>TypeError\<close>, a missing key \<open>KeyError\<close>, a field of
  the wrong type \<open>ValidationError\<close>.
\<close>

definition make_DocsetResult :: "json \<Rightarrow> exn + DocsetResult" where
  "make_DocsetResult docset =
     (case docset of
        JObj kvs \<Rightarrow>
          bind_exn (getitem kvs (lit ''name'')) (\<lambda>name.
          bind_exn (getitem kvs (lit ''identifier'')) (\<lambda>identifier.
          bind_exn (getitem kvs (lit ''platform'')) (\<lambda>platform.
          bind_exn (getitem kvs (lit ''full_text_search'')) (\<lambda>full_text_search.
          bind_exn (valid_str name) (\<lambda>v_name.
          bind_exn (valid_str identifier) (\<lambda>v_identifier.
          bind_exn (valid_str platform) (\<lambda>v_platform.
          bind_exn (valid_str full_text_search) (\<lambda>v_full_text_search.
          bind_exn (valid_opt_str (dict_get kvs (lit ''notice''))) (\<lambda>v_notice.
          Inr \<lparr>d_name = v_name, d_identifier = v_identifier, d_platform = v_platform,
               d_full_text_search = v_full_text_search, d_notice = v_notice\<rparr>)))))))))
      | _ \<Rightarrow> Inl TypeError)"

text \<open>
  \<open>list_installed_docsets\<close> from the parsed response on (222-252):
  \<open>result.get("docsets", [])\<close>, the loop, the result.
\<close>

definition docsets_of_result :: "json \<Rightarrow> exn + DocsetResults" where
  "docsets_of_result result =
     (case result of
        JObj kvs \<Rightarrow>
          (let docsets = (case map_of kvs (lit ''docsets'') of None \<Rightarrow> JArr [] | Some v \<Rightarrow> v) in
           bind_exn (py_iter docsets) (\<lambda>items.
           bind_exn (budget_loop make_DocsetResult (\<lambda>d. estimate_tokens (DocsetResult_obj d))
                       items base_overhead []) (\<lambda>limited_docsets.
           Inr \<lparr>docsets = limited_docsets, docsets_error = None\<rparr>)))
      | _ \<Rightarrow> Inl AttributeError)"

text \<open>The \<open>try\<close> block of \<open>list_installed_docsets\<close> (212-252).\<close>

definition list_installed_docsets_try :: "env \<Rightarrow> trace \<Rightarrow> (exn + DocsetResults) \<times> trace" where
  "list_installed_docsets_try env tr =
     (case working_api_base_url env tr of
        (Inl e, tr1) \<Rightarrow> (Inl e, tr1)
      | (Inr None, tr1) \<Rightarrow> (Inr (docsets_failure connect_error), tr1)
      | (Inr (Some base), tr1) \<Rightarrow>
          (case http_get env tr1 (DocsetsList base) of
             GetRaised e \<Rightarrow> (Inl e, tr1 @ [Get (DocsetsList base)])
           | Responded r \<Rightarrow>
               (bind_exn (raise_for_status r) (\<lambda>_.
                bind_exn (response_json r) docsets_of_result),
                tr1 @ [Get (DocsetsList base)])))"

text \<open>\<open>list_installed_docsets\<close> (194-261) with its two handlers.\<close>

definition list_installed_docsets :: "env \<Rightarrow> trace \<Rightarrow> DocsetResults \<times> trace" where
  "list_installed_docsets env tr =
     (case list_installed_docsets_try env tr of
        (Inr res, tr1) \<Rightarrow> (res, tr1)
      | (Inl (HTTPStatusError r), tr1) \<Rightarrow>
          (if status_code r = 404
           then docsets_failure (lit ''No docsets found. Instruct the user to install some docsets in Settings > Downloads.'')
           else docsets_failure (lit ''HTTP error: '' @ str_exn env (HTTPStatusError r)), tr1)
      | (Inl e, tr1) \<Rightarrow>
          (docsets_failure (lit ''Failed to get installed docsets: '' @ str_exn env e), tr1))"

text \<open>The construction of a \<open>SearchResult\<close> from one item (341-350).\<close>

definition make_SearchResult :: "json \<Rightarrow> exn + SearchResult" where
  "make_SearchResult item =
     (case item of
        JObj kvs \<Rightarrow>
          bind_exn (getitem kvs (lit ''name'')) (\<lambda>name.
          bind_exn (getitem kvs (lit ''type'')) (\<lambda>type.
          bind_exn (getitem kvs (lit ''load_url'')) (\<lambda>load_url.
          bind_exn (valid_str name) (\<lambda>v_name.
          bind_exn (valid_str type) (\<lambda>v_type.
          bind_exn (valid_opt_str (dict_get kvs (lit ''platform''))) (\<lambda>v_platform.
          bind_exn (valid_str load_url) (\<lambda>v_load_url.
          bind_exn (valid_opt_str (dict_get kvs (lit ''docset''))) (\<lambda>v_docset.
          bind_exn (valid_opt_str (dict_get kvs (lit ''description''))) (\<lambda>v_description.
          bind_exn (valid_opt_str (dict_get kvs (lit ''language''))) (\<lambda>v_language.
          bind_exn (valid_opt_str (dict_get kvs (lit ''tags''))) (\<lambda>v_tags.
          Inr \<lparr>s_name = v_name, s_type = v_type, s_platform = v_platform,
               s_load_url = v_load_url, s_docset = v_docset, s_description = v_description,
               s_language = v_language, s_tags = v_tags\<rparr>)))))))))))
      | _ \<Rightarrow> Inl TypeError)"

text \<open>
  The advisory message (327-330): \<open>"message" in result\<close> and then \<open>result["message"]\<close>.
  On a list or a string the membership test works and the subscript raises; on any other
  value that is not a dict the test itself raises.
\<close>

definition warning_message_of :: "json \<Rightarrow> exn + json" where
  "warning_message_of result =
     (case result of
        JObj kvs \<Rightarrow> Inr (dict_get kvs (lit ''message''))
      | JArr xs \<Rightarrow> if JStr (lit ''message'') \<in> set xs then Inl TypeError else Inr JNull
      | JStr s \<Rightarrow> if py_in (lit ''message'') s then Inl TypeError else Inr JNull
      | _ \<Rightarrow> Inl TypeError)"

text \<open>\<open>search_documentation\<close> from the parsed response on (326-365).\<close>

definition search_results_of :: "json \<Rightarrow> exn + SearchResults" where
  "search_results_of result =
     bind_exn (warning_message_of result) (\<lambda>warning_message.
       case result of
         JObj kvs \<Rightarrow>
           (let found = (case map_of kvs (lit ''results'') of None \<Rightarrow> JArr [] | Some v \<Rightarrow> v) in
            bind_exn (py_iter found) (\<lambda>items.
            bind_exn (budget_loop make_SearchResult (\<lambda>r. estimate_tokens (SearchResult_obj r))
                        items base_overhead []) (\<lambda>limited_results.
            bind_exn (valid_opt_str warning_message) (\<lambda>v_error.
            Inr \<lparr>results = limited_results, search_error = v_error\<rparr>))))
       | _ \<Rightarrow> Inl AttributeError)"

text \<open>The \<open>try\<close> block of \<open>search_documentation\<close> (308-365).\<close>

definition search_documentation_try ::
  "env \<Rightarrow> pystr \<Rightarrow> pystr \<Rightarrow> bool \<Rightarrow> int \<Rightarrow> trace \<Rightarrow> (exn + SearchResults) \<times> trace" where
  "search_documentation_try env query docset_identifiers search_snippets max_results tr =
     (case working_api_base_url env tr of
        (Inl e, tr1) \<Rightarrow> (Inl e, tr1)
      | (Inr None, tr1) \<Rightarrow> (Inr (search_failure connect_error), tr1)
      | (Inr (Some base), tr1) \<Rightarrow>
          (let req = Search base query docset_identifiers search_snippets max_results in
           case http_get env tr1 req of
             GetRaised e \<Rightarrow> (Inl e, tr1 @ [Get req])
           | Responded r \<Rightarrow>
               (bind_exn (raise_for_status r) (\<lambda>_.
                bind_exn (response_json r) search_results_of),
                tr1 @ [Get req])))"

text \<open>The handler for \<open>HTTPStatusError\<close> in \<open>search_documentation\<close> (366-387).\<close>

definition search_status_error :: "env \<Rightarrow> response \<Rightarrow> SearchResults" where
  "search_status_error env r =
     (if status_code r = 400 then
        (if py_in (lit ''Docset with identifier'') (resp_text r) \<and> py_in (lit ''not found'') (resp_text r)
         then search_failure (lit ''Invalid docset identifier. Run list_installed_docsets to see available docsets, then use the exact identifier from that list.'')
         else if py_in (lit ''No docsets found'') (resp_text r)
         then search_failure (lit ''No valid docsets found for search. Either provide valid docset identifiers from list_installed_docsets, or set search_snippets=true to search snippets only.'')
         else search_failure (lit ''Bad request: '' @ resp_text r @ generic_advice))
      else if status_code r = 403 then
        (if py_in (lit ''API access blocked due to Dash trial expiration'') (resp_text r)
         then search_failure (lit ''Your Dash trial has expired. Purchase Dash at https://kapeli.com/dash to continue using the API. During trial expiration, API access is blocked.'')
         else search_failure (lit ''Forbidden: '' @ resp_text r @ generic_advice))
      else search_failure (lit ''HTTP error: '' @ str_exn env (HTTPStatusError r) @ generic_advice))"

text \<open>\<open>search_documentation\<close> (265-390): the three validations, then the \<open>try\<close>.\<close>

definition search_documentation ::
  "env \<Rightarrow> pystr \<Rightarrow> pystr \<Rightarrow> bool \<Rightarrow> int \<Rightarrow> trace \<Rightarrow> SearchResults \<times> trace" where
  "search_documentation env query docset_identifiers search_snippets max_results tr =
     (if py_blank query then (search_failure (lit ''Query cannot be empty''), tr)
      else if py_blank docset_identifiers
      then (search_failure (lit ''docset_identifiers cannot be empty. Get the docset identifiers using list_installed_docsets''), tr)
      else if max_results < 1 \<or> max_results > 1000
      then (search_failure (lit ''max_results must be between 1 and 1000''), tr)
      else
        (case search_documentation_try env query docset_identifiers search_snippets max_results tr of
           (Inr res, tr1) \<Rightarrow> (res, tr1)
         | (Inl (HTTPStatusError r), tr1) \<Rightarrow> (search_status_error env r, tr1)
         | (Inl e, tr1) \<Rightarrow>
             (search_failure (lit ''Search failed: '' @ str_exn env e @ generic_advice), tr1)))"

text \<open>
  The \<open>try\<close> block of \<open>enable_docset_fts\<close> (421-431). \<open>Inr None\<close> is the \<open>return False\<close>
  inside it; \<open>Inr (Some result)\<close> is falling out of the block with the parsed body.
\<close>

definition enable_docset_fts_try ::
  "env \<Rightarrow> pystr \<Rightarrow> trace \<Rightarrow> (exn + json option) \<times> trace" where
  "enable_docset_fts_try env identifier tr =
     (case working_api_base_url env tr of
        (Inl e, tr1) \<Rightarrow> (Inl e, tr1)
      | (Inr None, tr1) \<Rightarrow> (Inr None, tr1)
      | (Inr (Some base), tr1) \<Rightarrow>
          (case http_get env tr1 (EnableFts base identifier) of
             GetRaised e \<Rightarrow> (Inl e, tr1 @ [Get (EnableFts base identifier)])
           | Responded r \<Rightarrow>
               (bind_exn (raise_for_status r) (\<lambda>_.
                bind_exn (response_json r) (\<lambda>result. Inr (Some result))),
                tr1 @ [Get (EnableFts base identifier)])))"

text \<open>\<open>enable_docset_fts\<close> (394-445): the parsed body is not looked at.\<close>

definition enable_docset_fts :: "env \<Rightarrow> pystr \<Rightarrow> trace \<Rightarrow> bool \<times> trace" where
  "enable_docset_fts env identifier tr =
     (if py_blank identifier then (False, tr)
      else
        (case enable_docset_fts_try env identifier tr of
           (Inl e, tr1) \<Rightarrow> (False, tr1)
         | (Inr None, tr1) \<Rightarrow> (False, tr1)
         | (Inr (Some result), tr1) \<Rightarrow> (True, tr1)))"

section \<open>Content sanitizer\<close>

text \<open>\<open>soup.find(name)\<close>: the first element of that name in document order.\<close>

fun find_first :: "pystr \<Rightarrow> node list \<Rightarrow> node option" where
  "find_first name [] = None"
| "find_first name (Text s # ns) = find_first name ns"
| "find_first name (Element tag attrs children # ns) =
     (if tag = name then Some (Element tag attrs children)
      else (case find_first name children of
              Some n \<Rightarrow> Some n
            | None \<Rightarrow> find_first name ns))"

definition unwanted :: "pystr list" where
  "unwanted = [lit ''script'', lit ''style'', lit ''nav'', lit ''header'']"

text \<open>
  \<open>for element in soup.find_all(names): element.decompose()\<close> (503-504): every element
  of one of the names leaves the tree with all it contains.
\<close>

fun decompose_all :: "pystr list \<Rightarrow> node list \<Rightarrow> node list" where
  "decompose_all names [] = []"
| "decompose_all names (Text s # ns) = Text s # decompose_all names ns"
| "decompose_all names (Element tag attrs children # ns) =
     (if tag \<in> set names then decompose_all names ns
      else Element tag attrs (decompose_all names children) # decompose_all names ns)"


text \<open>
  \<open>re.sub(r'\n{3,}', '\n\n', s)\<close> (513). The scan goes left to right; at each position
  the greedy pattern takes the whole run of newlines that starts there and matches when
  the run has three or more, and the scan goes on behind the match. Where it does not
  match, the character is kept and the scan moves one position on.
\<close>

function collapse_newlines :: "pystr \<Rightarrow> pystr" where
  "collapse_newlines [] = []"
| "collapse_newlines (c # cs) =
     (if 3 \<le> length (takeWhile (\<lambda>x. x = NL) (c # cs))
      then NL # NL # collapse_newlines (dropWhile (\<lambda>x. x = NL) (c # cs))
      else c # collapse_newlines cs)"
  by pat_completeness auto
termination
proof (relation "measure length")
  show "wf (measure length)"
    by simp
next
  fix c :: pychar and cs :: pystr
  assume "3 \<le> length (takeWhile (\<lambda>x. x = NL) (c # cs))"
  then have "c = NL"
    by (auto split: if_splits)
  then have "length (dropWhile (\<lambda>x. x = NL) (c # cs)) \<le> length cs"
    by (simp add: length_dropWhile_le)
  then show "(dropWhile (\<lambda>x. x = NL) (c # cs), c # cs) \<in> measure length"
    by simp
next
  fix c :: pychar and cs :: pystr
  show "(cs, c # cs) \<in> measure length"
    by simp
qed

text \<open>The characters of the class \<open>[ \t]\<close>.\<close>

definition is_blank :: "pychar \<Rightarrow> bool" where
  "is_blank c = (c = SP \<or> c = TAB)"

text \<open>
  \<open>re.sub(r'[ \t]+$', '', s, flags=re.MULTILINE)\<close> (515). At each position the greedy
  class takes the whole run of spaces and tabs that starts there; \<open>$\<close> then holds at the
  end of the string and before a newline. A shorter run is followed by a space or a tab,
  so backtracking finds nothing more. A match is deleted and the scan goes on behind it.
\<close>

function strip_line_ends :: "pystr \<Rightarrow> pystr" where
  "strip_line_ends [] = []"
| "strip_line_ends (c # cs) =
     (if is_blank c \<and> (dropWhile is_blank cs = [] \<or> hd (dropWhile is_blank cs) = NL)
      then strip_line_ends (dropWhile is_blank cs)
      else c # strip_line_ends cs)"
  by pat_completeness auto
termination
proof (relation "measure length")
  show "wf (measure length)"
    by simp
next
  fix c :: pychar and cs :: pystr
  have "length (dropWhile is_blank cs) \<le> length cs"
    by (simp add: length_dropWhile_le)
  then show "(dropWhile is_blank cs, c # cs) \<in> measure length"
    by simp
next
  fix c :: pychar and cs :: pystr
  show "(cs, c # cs) \<in> measure length"
    by simp
qed

text \<open>The whitespace clean-up of the converted text (513-517).\<close>

definition clean_whitespace :: "pystr \<Rightarrow> pystr" where
  "clean_whitespace markdown_content = py_strip (strip_line_ends (collapse_newlines markdown_content))"

text \<open>
  From the fetched HTML to title and content (496-517). The title is read before the
  unwanted elements are removed.
\<close>

definition sanitize :: "env \<Rightarrow> pystr \<Rightarrow> exn + (pystr \<times> pystr)" where
  "sanitize env html_content =
     bind_exn (parse_html env html_content) (\<lambda>soup.
       let title = (case find_first (lit ''title'') soup of
                      Some title_elem \<Rightarrow> get_text env title_elem
                    | None \<Rightarrow> lit ''Documentation'')
       in bind_exn (markdownify env (decompose_all unwanted soup)) (\<lambda>markdown_content.
          Inr (title, clean_whitespace markdown_content)))"

text \<open>The \<open>try\<close> block of \<open>fetch_documentation_content\<close> (479-525).\<close>

definition fetch_documentation_content_try ::
  "env \<Rightarrow> pystr \<Rightarrow> trace \<Rightarrow> (exn + DocumentationContent) \<times> trace" where
  "fetch_documentation_content_try env load_url tr =
     (case http_get env tr (Fetch load_url) of
        GetRaised e \<Rightarrow> (Inl e, tr @ [Get (Fetch load_url)])
      | Responded r \<Rightarrow>
          (bind_exn (raise_for_status r) (\<lambda>_.
           bind_exn (sanitize env (resp_text r)) (\<lambda>(title, markdown_content).
           Inr \<lparr>c_load_url = load_url, c_title = title, c_content = markdown_content,
                c_error = None\<rparr>)),
           tr @ [Get (Fetch load_url)]))"

definition content_failure :: "pystr \<Rightarrow> pystr \<Rightarrow> DocumentationContent" where
  "content_failure load_url error_msg =
     \<lparr>c_load_url = load_url, c_title = lit ''Error'', c_content = [], c_error = Some error_msg\<rparr>"

text \<open>\<open>fetch_documentation_content\<close> (449-544).\<close>

definition fetch_documentation_content ::
  "env \<Rightarrow> pystr \<Rightarrow> trace \<Rightarrow> DocumentationContent \<times> trace" where
  "fetch_documentation_content env load_url tr =
     (if py_blank load_url then (content_failure load_url (lit ''load_url cannot be empty''), tr)
      else
        (case fetch_documentation_content_try env load_url tr of
           (Inr res, tr1) \<Rightarrow> (res, tr1)
         | (Inl (HTTPStatusError r), tr1) \<Rightarrow>
             (content_failure load_url
                (lit ''HTTP error '' @ py_str_int (status_code r) @ lit '': '' @ reason_phrase r),
              tr1)
         | (Inl e, tr1) \<Rightarrow>
             (content_failure load_url (lit ''Failed to fetch content: '' @ str_exn env e), tr1)))"

section \<open>Predicates of the statements and example environments\<close>

text \<open>
  The bound on what one call does: each variant is launched at most once, the setting
  is written at most once for each variant, the status file is read at most twice (the
  first look and the one look again after the writes), the process list is searched at
  most twice, and the call performs at most 13 actions in all.
\<close>

definition attempts_bounded :: "trace \<Rightarrow> bool" where
  "attempts_bounded acts =
     (count_list acts (OpenApp DashDoc) \<le> 1 \<and> count_list acts (OpenApp DashSetapp) \<le> 1
      \<and> count_list acts (DefaultsWrite DashDoc) \<le> 1
      \<and> count_list acts (DefaultsWrite DashSetapp) \<le> 1
      \<and> count_list acts ReadStatus \<le> 2 \<and> count_list acts Pgrep \<le> 2
      \<and> length acts \<le> 13)"

text \<open>Three newline characters in a row, that is two or more empty lines in a row.\<close>

definition blank_line_run :: "pystr \<Rightarrow> bool" where
  "blank_line_run s = py_in [NL, NL, NL] s"

text \<open>The messages the statements name.\<close>

definition invalid_docset_error :: pystr where
  "invalid_docset_error = lit ''Invalid docset identifier. Run list_installed_docsets to see available docsets, then use the exact identifier from that list.''"

definition ok_response :: response where
  "ok_response = \<lparr>status_code = 200, reason_phrase = lit ''OK'', resp_text = lit ''OK'',
                  json_body = None\<rparr>"

text \<open>
  An environment for the examples: Dash is running, every write of the setting
  succeeds, reading the status file gives \<open>status\<close>, the health request gets \<open>health\<close>,
  every other request the response \<open>r\<close>, the parser wraps the page in one text node and
  the converter returns \<open>converted\<close>.
\<close>

definition env_answering :: "status_read \<Rightarrow> http_outcome \<Rightarrow> response \<Rightarrow> pystr \<Rightarrow> env" where
  "env_answering status health r converted =
     \<lparr>pgrep = (\<lambda>tr. Exited 0),
      open_app = (\<lambda>tr v. Exited 0),
      defaults_write = (\<lambda>tr v. Exited 0),
      status_file = (\<lambda>tr. status),
      http_get = (\<lambda>tr req. case req of Health port \<Rightarrow> health | _ \<Rightarrow> Responded r),
      str_exn = (\<lambda>e. lit ''error''),
      parse_html = (\<lambda>html. Inr [Text html]),
      get_text = (\<lambda>el. []),
      markdownify = (\<lambda>soup. Inr converted)\<rparr>"



text \<open>An environment in which every request raises.\<close>

definition env_unreachable :: env where
  "env_unreachable =
     \<lparr>pgrep = (\<lambda>tr. Exited 0),
      open_app = (\<lambda>tr v. Exited 0),
      defaults_write = (\<lambda>tr v. Exited 0),
      status_file = (\<lambda>tr. Loaded (JObj [(lit ''port'', JInt 8080)])),
      http_get = (\<lambda>tr req. GetRaised (OtherError 0)),
      str_exn = (\<lambda>e. lit ''error''),
      parse_html = (\<lambda>html. Inr [Text html]),
      get_text = (\<lambda>el. []),
      markdownify = (\<lambda>tree. Inr [])\<rparr>"



text \<open>A status file naming port 8080.\<close>

definition status_8080 :: status_read where
  "status_8080 = Loaded (JObj [(lit ''port'', JInt 8080)])"

text \<open>Responses of the examples.\<close>

definition not_found_400 :: response where
  "not_found_400 = \<lparr>status_code = 400, reason_phrase = lit ''Bad Request'',
     resp_text = lit ''not found'', json_body = None\<rparr>"

definition docset_not_found_400 :: response where
  "docset_not_found_400 = \<lparr>status_code = 400, reason_phrase = lit ''Bad Request'',
     resp_text = lit ''Docset with identifier bogus_id not found'', json_body = None\<rparr>"

definition server_error_500 :: response where
  "server_error_500 = \<lparr>status_code = 500, reason_phrase = lit ''Internal Server Error'',
     resp_text = [], json_body = None\<rparr>"

text \<open>
  The message of the two handlers of \<open>fetch_documentation_content\<close> (527-544), by the
  exception handled.
\<close>

definition fetch_error_msg :: "env \<Rightarrow> exn \<Rightarrow> pystr" where
  "fetch_error_msg env e =
     (case e of
        HTTPStatusError r \<Rightarrow>
          lit ''HTTP error '' @ py_str_int (status_code r) @ lit '': '' @ reason_phrase r
      | _ \<Rightarrow> lit ''Failed to fetch content: '' @ str_exn env e)"

text \<open>
  The result of an error path of \<open>fetch_documentation_content\<close>: the \<open>load_url\<close> given,
  the title \<open>Error\<close>, no content and a message that is not empty.
\<close>

definition error_result :: "pystr \<Rightarrow> DocumentationContent \<Rightarrow> bool" where
  "error_result load_url res =
     (c_load_url res = load_url \<and> c_title res = lit ''Error'' \<and> c_content res = []
      \<and> (\<exists>m. c_error res = Some m \<and> m \<noteq> []))"

text \<open>
  No line ends in a space or a tab: no space or tab stands directly before a newline
  character or at the end of the text.
\<close>

fun line_ends_clean :: "pystr \<Rightarrow> bool" where
  "line_ends_clean [] = True"
| "line_ends_clean [c] = (\<not> is_blank c)"
| "line_ends_clean (c # d # cs) = (\<not> (is_blank c \<and> d = NL) \<and> line_ends_clean (d # cs))"

text \<open>The text does not begin or end with a whitespace character.\<close>

definition trimmed :: "pystr \<Rightarrow> bool" where
  "trimmed s = (s = [] \<or> (\<not> py_isspace (hd s) \<and> \<not> py_isspace (last s)))"

text \<open>
  Texts of the examples: two lines holding one space each between \<open>a\<close> and \<open>b\<close>; four,
  three and two newlines between \<open>a\<close> and \<open>b\<close>; three line ends of carriage return and
  newline between \<open>a\<close> and \<open>b\<close>; the address of a page.
\<close>

definition two_blank_only_lines :: pystr where
  "two_blank_only_lines = lit ''a'' @ [NL, SP, NL, SP, NL] @ lit ''b''"

definition four_newlines :: pystr where
  "four_newlines = lit ''a'' @ [NL, NL, NL, NL] @ lit ''b''"

definition three_newlines :: pystr where
  "three_newlines = lit ''a'' @ [NL, NL, NL] @ lit ''b''"

definition two_newlines :: pystr where
  "two_newlines = lit ''a'' @ [NL, NL] @ lit ''b''"

definition crlf_lines :: pystr where
  "crlf_lines = lit ''a'' @ [13, NL, 13, NL, 13, NL] @ lit ''b''"

definition page_url :: pystr where
  "page_url = lit ''http://127.0.0.1:8080/page.html''"

section \<open>Properties of the budgeting loop\<close>




section \<open>Properties of the estimate\<close>

lemma estimate_tokens_opt_str:
  "estimate_tokens (opt_str v) = (case v of None \<Rightarrow> 1 | Some s \<Rightarrow> max 1 (int (length s) div 4))"
  by (simp add: opt_str_def split: option.splits)

text \<open>
  C6, as the code has it. The estimate of a string is its character count divided by
  four and rounded down, at least 1: four times the estimate never exceeds the larger of
  4 and the character count. The estimate of an item is the sum of these over its field
  names as well as its field values, a value of \<open>None\<close> counting 1: the five field names
  of a docset entry weigh 10, the eight of a search hit 12.
\<close>

theorem estimate_tokens_floor_sum:
  "estimate_tokens (PStr s) = max 1 (int (length s) div 4)
   \<and> 4 * estimate_tokens (PStr s) \<le> max 4 (int (length s))
   \<and> estimate_tokens (opt_str None) = 1
   \<and> estimate_tokens (DocsetResult_obj d) =
       10 + estimate_tokens (PStr (d_name d)) + estimate_tokens (PStr (d_identifier d))
          + estimate_tokens (PStr (d_platform d)) + estimate_tokens (PStr (d_full_text_search d))
          + estimate_tokens (opt_str (d_notice d))
   \<and> estimate_tokens (SearchResult_obj r) =
       12 + estimate_tokens (PStr (s_name r)) + estimate_tokens (PStr (s_type r))
          + estimate_tokens (opt_str (s_platform r)) + estimate_tokens (PStr (s_load_url r))
          + estimate_tokens (opt_str (s_docset r)) + estimate_tokens (opt_str (s_description r))
          + estimate_tokens (opt_str (s_language r)) + estimate_tokens (opt_str (s_tags r))"
  by (simp add: DocsetResult_obj_def SearchResult_obj_def model_dump_def lit_def opt_str_def)

text \<open>
  C6 as stated fails: a string of five characters is estimated at 1, and five
  characters at four per unit, rounded up, are 2.
\<close>

theorem estimate_tokens_not_rounded_up:
  "estimate_tokens (PStr (lit ''abcde'')) \<noteq> chars_per_unit_rounded_up (lit ''abcde'')"
  by (simp add: chars_per_unit_rounded_up_def lit_def)

section \<open>The lifecycle ladder\<close>

text \<open>What each step adds to the trace.\<close>

lemma check_dash_running_trace: "snd (check_dash_running env tr) = tr @ [Pgrep]"
  by (simp add: check_dash_running_def)

lemma check_api_health_trace: "snd (check_api_health env port tr) = tr @ [Get (Health port)]"
  by (simp add: check_api_health_def)

lemma launch_dash_trace:
  "snd (launch_dash env tr) = tr @ [OpenApp DashDoc]
   \<or> snd (launch_dash env tr) = tr @ [OpenApp DashDoc, OpenApp DashSetapp]"
  by (simp add: launch_dash_def Let_def split: proc_outcome.splits sum.splits)

lemma ensure_dash_running_trace:
  "\<exists>acts. snd (ensure_dash_running env tr) = tr @ acts
     \<and> acts \<in> {[Pgrep],
                [Pgrep, OpenApp DashDoc],
                [Pgrep, OpenApp DashDoc, OpenApp DashSetapp],
                [Pgrep, OpenApp DashDoc, Sleep 4, Pgrep],
                [Pgrep, OpenApp DashDoc, OpenApp DashSetapp, Sleep 4, Pgrep]}"
  using launch_dash_trace[of env "tr @ [Pgrep]"]
  by (auto simp: ensure_dash_running_def check_dash_running_def Let_def split: prod.splits sum.splits)

lemma get_dash_api_port_trace:
  "snd (get_dash_api_port env tr) = tr @ [ReadStatus]
   \<or> (\<exists>port. snd (get_dash_api_port env tr) = tr @ [ReadStatus, Get (Health port)])"
  by (auto simp: get_dash_api_port_def check_api_health_def Let_def split: status_read.splits json.splits prod.splits)

lemma enable_api_server_trace:
  "\<exists>acts. snd (enable_api_server env tr) = tr @ acts
     \<and> (acts = [DefaultsWrite DashDoc]
        \<or> acts = [DefaultsWrite DashDoc, DefaultsWrite DashSetapp]
        \<or> acts = [DefaultsWrite DashDoc, DefaultsWrite DashSetapp, Sleep 2, ReadStatus]
        \<or> (\<exists>port. acts = [DefaultsWrite DashDoc, DefaultsWrite DashSetapp, Sleep 2, ReadStatus, Get (Health port)]))"
  using get_dash_api_port_trace[of env "tr @ [DefaultsWrite DashDoc, DefaultsWrite DashSetapp, Sleep 2]"]
  by (auto simp: enable_api_server_def Let_def split: sum.splits)


lemma working_api_base_url_trace:
  "\<exists>acts. snd (working_api_base_url env tr) = tr @ acts
     \<and> attempts_bounded acts \<and> length acts \<le> 12"
proof -
  obtain a where a: "snd (ensure_dash_running env tr) = tr @ a"
    and a_shape: "a \<in> {[Pgrep],
                [Pgrep, OpenApp DashDoc],
                [Pgrep, OpenApp DashDoc, OpenApp DashSetapp],
                [Pgrep, OpenApp DashDoc, Sleep 4, Pgrep],
                [Pgrep, OpenApp DashDoc, OpenApp DashSetapp, Sleep 4, Pgrep]}"
    using ensure_dash_running_trace[of env tr] by blast
  let ?t1 = "tr @ a"
  obtain b where b: "snd (get_dash_api_port env ?t1) = ?t1 @ b"
    and b_shape: "b = [ReadStatus] \<or> (\<exists>port. b = [ReadStatus, Get (Health port)])"
    using get_dash_api_port_trace[of env ?t1] by auto
  let ?t2 = "?t1 @ b"
  obtain c where c: "snd (enable_api_server env ?t2) = ?t2 @ c"
    and c_shape: "c = [DefaultsWrite DashDoc]
        \<or> c = [DefaultsWrite DashDoc, DefaultsWrite DashSetapp]
        \<or> c = [DefaultsWrite DashDoc, DefaultsWrite DashSetapp, Sleep 2, ReadStatus]
        \<or> (\<exists>port. c = [DefaultsWrite DashDoc, DefaultsWrite DashSetapp, Sleep 2, ReadStatus, Get (Health port)])"
    using enable_api_server_trace[of env ?t2] by blast
  have shape: "snd (working_api_base_url env tr) = tr @ a
      \<or> snd (working_api_base_url env tr) = tr @ (a @ b)
      \<or> snd (working_api_base_url env tr) = tr @ (a @ b @ c)"
    using a b c
    by (auto simp: working_api_base_url_def Let_def split: prod.splits sum.splits option.splits)
  have ba: "attempts_bounded a \<and> length a \<le> 12"
    using a_shape by (auto simp: attempts_bounded_def)
  have bab: "attempts_bounded (a @ b) \<and> length (a @ b) \<le> 12"
    using a_shape b_shape by (auto simp: attempts_bounded_def)
  have babc: "attempts_bounded (a @ b @ c) \<and> length (a @ b @ c) \<le> 12"
    using a_shape b_shape c_shape by (auto simp: attempts_bounded_def)
  from shape ba bab babc show ?thesis by blast
qed

lemma attempts_bounded_Get:
  "attempts_bounded acts \<Longrightarrow> length acts \<le> 12 \<Longrightarrow> attempts_bounded (acts @ [Get req])"
  by (simp add: attempts_bounded_def)

lemma list_installed_docsets_trace:
  "\<exists>acts. snd (list_installed_docsets env tr) = tr @ acts \<and> attempts_bounded acts"
proof -
  obtain acts where acts: "snd (working_api_base_url env tr) = tr @ acts"
    "attempts_bounded acts" "length acts \<le> 12"
    using working_api_base_url_trace[of env tr] by blast
  have "snd (list_installed_docsets env tr) = tr @ acts
     \<or> (\<exists>req. snd (list_installed_docsets env tr) = tr @ (acts @ [Get req]))"
    using acts(1)
    by (auto simp: list_installed_docsets_def list_installed_docsets_try_def
        split: prod.splits sum.splits option.splits http_outcome.splits exn.splits)
  with acts(2,3) attempts_bounded_Get show ?thesis by blast
qed

lemma search_documentation_trace:
  "\<exists>acts. snd (search_documentation env q ids sn m tr) = tr @ acts \<and> attempts_bounded acts"
proof -
  obtain acts where acts: "snd (working_api_base_url env tr) = tr @ acts"
    "attempts_bounded acts" "length acts \<le> 12"
    using working_api_base_url_trace[of env tr] by blast
  have "snd (search_documentation env q ids sn m tr) = tr @ []
     \<or> snd (search_documentation env q ids sn m tr) = tr @ acts
     \<or> (\<exists>req. snd (search_documentation env q ids sn m tr) = tr @ (acts @ [Get req]))"
    using acts(1)
    by (auto simp: search_documentation_def search_documentation_try_def Let_def
        split: prod.splits sum.splits option.splits http_outcome.splits exn.splits)
  moreover have "attempts_bounded []" by (simp add: attempts_bounded_def)
  ultimately show ?thesis using acts(2,3) attempts_bounded_Get by blast
qed

lemma enable_docset_fts_trace:
  "\<exists>acts. snd (enable_docset_fts env i tr) = tr @ acts \<and> attempts_bounded acts"
proof -
  obtain acts where acts: "snd (working_api_base_url env tr) = tr @ acts"
    "attempts_bounded acts" "length acts \<le> 12"
    using working_api_base_url_trace[of env tr] by blast
  have "snd (enable_docset_fts env i tr) = tr @ []
     \<or> snd (enable_docset_fts env i tr) = tr @ acts
     \<or> (\<exists>req. snd (enable_docset_fts env i tr) = tr @ (acts @ [Get req]))"
    using acts(1)
    by (auto simp: enable_docset_fts_def enable_docset_fts_try_def
        split: prod.splits sum.splits option.splits http_outcome.splits)
  moreover have "attempts_bounded []" by (simp add: attempts_bounded_def)
  ultimately show ?thesis using acts(2,3) attempts_bounded_Get by blast
qed

lemma fetch_documentation_content_trace:
  "snd (fetch_documentation_content env url tr) = tr @ []
   \<or> snd (fetch_documentation_content env url tr) = tr @ [Get (Fetch url)]"
  by (auto simp: fetch_documentation_content_def fetch_documentation_content_try_def
      split: prod.splits sum.splits http_outcome.splits exn.splits)

lemma working_api_base_url_absent:
  assumes "fst (working_api_base_url env tr) = Inr None"
  shows "list_installed_docsets env tr
      = (docsets_failure connect_error, snd (working_api_base_url env tr))"
    and "\<not> py_blank query \<Longrightarrow> \<not> py_blank ids \<Longrightarrow> 1 \<le> max_results \<Longrightarrow> max_results \<le> 1000
      \<Longrightarrow> search_documentation env query ids snippets max_results tr
        = (search_failure connect_error, snd (working_api_base_url env tr))"
    and "\<not> py_blank identifier
      \<Longrightarrow> enable_docset_fts env identifier tr = (False, snd (working_api_base_url env tr))"
  using assms
  by (cases "working_api_base_url env tr";
      simp add: list_installed_docsets_def list_installed_docsets_try_def
        search_documentation_def search_documentation_try_def
        enable_docset_fts_def enable_docset_fts_try_def)+

text \<open>
  C2. Every public operation, in every environment and after any history, adds to the
  trace a list of actions in which each variant is launched at most once, the enable-API
  setting is written at most once for each variant, the status file is read at most
  twice and which has at most 13 actions: there is no loop. When
  \<open>working_api_base_url\<close> returns absent, which it does when the one look after the
  writes finds no live port, the operation returns its connectivity error (\<open>False\<close> for
  \<open>enable_docset_fts\<close>) and does nothing further.
\<close>

theorem lifecycle_attempts_bounded:
  "(\<exists>acts. snd (list_installed_docsets env tr) = tr @ acts \<and> attempts_bounded acts)
   \<and> (\<exists>acts. snd (search_documentation env query ids snippets max_results tr) = tr @ acts
          \<and> attempts_bounded acts)
   \<and> (\<exists>acts. snd (enable_docset_fts env identifier tr) = tr @ acts \<and> attempts_bounded acts)
   \<and> (\<exists>acts. snd (fetch_documentation_content env load_url tr) = tr @ acts
          \<and> attempts_bounded acts)
   \<and> (fst (working_api_base_url env tr) = Inr None \<longrightarrow>
        list_installed_docsets env tr
          = (docsets_failure connect_error, snd (working_api_base_url env tr))
        \<and> (\<not> py_blank query \<and> \<not> py_blank ids \<and> 1 \<le> max_results \<and> max_results \<le> 1000 \<longrightarrow>
             search_documentation env query ids snippets max_results tr
               = (search_failure connect_error, snd (working_api_base_url env tr)))
        \<and> (\<not> py_blank identifier \<longrightarrow>
             enable_docset_fts env identifier tr
               = (False, snd (working_api_base_url env tr))))"
proof -
  have fetch: "\<exists>acts. snd (fetch_documentation_content env load_url tr) = tr @ acts
          \<and> attempts_bounded acts"
    using fetch_documentation_content_trace[of env load_url tr]
    by (auto simp: attempts_bounded_def)
  have absent: "fst (working_api_base_url env tr) = Inr None \<longrightarrow>
        list_installed_docsets env tr
          = (docsets_failure connect_error, snd (working_api_base_url env tr))
        \<and> (\<not> py_blank query \<and> \<not> py_blank ids \<and> 1 \<le> max_results \<and> max_results \<le> 1000 \<longrightarrow>
             search_documentation env query ids snippets max_results tr
               = (search_failure connect_error, snd (working_api_base_url env tr)))
        \<and> (\<not> py_blank identifier \<longrightarrow>
             enable_docset_fts env identifier tr
               = (False, snd (working_api_base_url env tr)))"
    using working_api_base_url_absent[of env tr] by blast
  from list_installed_docsets_trace[of env tr]
    search_documentation_trace[of env query ids snippets max_results tr]
    enable_docset_fts_trace[of env "identifier" tr] fetch absent
  show ?thesis by (intro conjI)
qed

text \<open>
  An instance: Dash runs, the status file is missing before and after the two writes.
  The call writes the setting once for each variant, looks once more, and returns the
  connectivity error.
\<close>

theorem lifecycle_attempts_bounded_witness:
  "fst (working_api_base_url
          (env_answering (ReadRaised FileNotFoundError) (Responded ok_response) ok_response []) [])
     = Inr None
   \<and> list_installed_docsets
        (env_answering (ReadRaised FileNotFoundError) (Responded ok_response) ok_response []) []
     = (docsets_failure connect_error,
        [Pgrep, ReadStatus, DefaultsWrite DashDoc, DefaultsWrite DashSetapp, Sleep 2, ReadStatus])
   \<and> attempts_bounded
        [Pgrep, ReadStatus, DefaultsWrite DashDoc, DefaultsWrite DashSetapp, Sleep 2, ReadStatus]"
proof -
  let ?env = "env_answering (ReadRaised FileNotFoundError) (Responded ok_response) ok_response []"
  have w: "working_api_base_url ?env []
      = (Inr None,
         [Pgrep, ReadStatus, DefaultsWrite DashDoc, DefaultsWrite DashSetapp, Sleep 2, ReadStatus])"
    by (simp add: working_api_base_url_def ensure_dash_running_def check_dash_running_def
        get_dash_api_port_def enable_api_server_def checked_def env_answering_def Let_def)
  have b: "attempts_bounded
        [Pgrep, ReadStatus, DefaultsWrite DashDoc, DefaultsWrite DashSetapp, Sleep 2, ReadStatus]"
    by (simp add: attempts_bounded_def)
  from w b lifecycle_attempts_bounded[of ?env "[]"]
  show ?thesis by simp
qed

section \<open>Validation in \<open>search_documentation\<close>\<close>

text \<open>
  C3. When the query is blank, or \<open>docset_identifiers\<close> is blank, or \<open>max_results\<close> is
  outside 1..1000, \<open>search_documentation\<close> returns no results and the message of the
  first check that fails, and the trace is the one it was given: no request is sent and
  no lifecycle step is taken.
\<close>

theorem search_validation_is_local:
  assumes "py_blank query \<or> py_blank docset_identifiers \<or> max_results < 1 \<or> max_results > 1000"
  shows "snd (search_documentation env query docset_identifiers search_snippets max_results tr) = tr
    \<and> results (fst (search_documentation env query docset_identifiers search_snippets max_results tr)) = []
    \<and> search_error (fst (search_documentation env query docset_identifiers search_snippets max_results tr))
        = Some (if py_blank query then lit ''Query cannot be empty''
                else if py_blank docset_identifiers
                then lit ''docset_identifiers cannot be empty. Get the docset identifiers using list_installed_docsets''
                else lit ''max_results must be between 1 and 1000'')"
  using assms by (auto simp: search_documentation_def search_failure_def)

text \<open>An instance: the empty query with the identifier \<open>python3\<close>.\<close>

theorem search_validation_is_local_witness:
  "py_blank [] 
   \<and> search_documentation (env_answering status_8080 (Responded ok_response) ok_response [])
        [] (lit ''python3'') True 100 []
     = (search_failure (lit ''Query cannot be empty''), [])"
proof -
  have b: "py_blank []" by (simp add: py_blank_def py_strip_def)
  from search_validation_is_local[of "[]" "lit ''python3''" 100
      "env_answering status_8080 (Responded ok_response) ok_response []" True "[]"] b
  show ?thesis
    by (simp add: search_failure_def prod_eq_iff)
qed

section \<open>Endpoint discovery\<close>

lemma check_api_health_iff:
  "fst (check_api_health env port tr)
   \<longleftrightarrow> (\<exists>r. http_get env tr (Health port) = Responded r
          \<and> 200 \<le> status_code r \<and> status_code r \<le> 299)"
  by (auto simp: check_api_health_def raise_for_status_def split: http_outcome.splits)

text \<open>
  What \<open>get_dash_api_port\<close> does where the \<open>except\<close> clause and the test for
  \<open>None\<close> reach: it returns absent when opening the file raises
  \<open>FileNotFoundError\<close>, when \<open>json.load\<close> raises \<open>JSONDecodeError\<close>, when the value
  loaded is an object with no port (or a \<open>null\<close> port), and when it is an object whose
  port fails the health probe; a port it returns is the one the object names and has
  passed the probe.
\<close>

lemma discovery_confirms_port:
  "(status_file env tr = ReadRaised FileNotFoundError \<longrightarrow> fst (get_dash_api_port env tr) = Inr None)
   \<and> (status_file env tr = ReadRaised JSONDecodeError \<longrightarrow> fst (get_dash_api_port env tr) = Inr None)
   \<and> (\<forall>kvs. status_file env tr = Loaded (JObj kvs) \<and> dict_get kvs (lit ''port'') = JNull
         \<longrightarrow> fst (get_dash_api_port env tr) = Inr None)
   \<and> (\<forall>kvs. status_file env tr = Loaded (JObj kvs)
              \<and> \<not> fst (check_api_health env (dict_get kvs (lit ''port'')) (tr @ [ReadStatus]))
         \<longrightarrow> fst (get_dash_api_port env tr) = Inr None)
   \<and> (\<forall>port. fst (get_dash_api_port env tr) = Inr (Some port)
         \<longrightarrow> (\<exists>kvs. status_file env tr = Loaded (JObj kvs) \<and> map_of kvs (lit ''port'') = Some port)
             \<and> fst (check_api_health env port (tr @ [ReadStatus])))"
  by (auto simp: get_dash_api_port_def dict_get_def Let_def
      split: status_read.splits json.splits prod.splits option.splits if_splits)

text \<open>An instance: the file names port 8080 and the health request raises.\<close>

lemma discovery_confirms_port_example:
  "status_file (env_answering status_8080 (GetRaised (OtherError 0)) ok_response []) [] = Loaded (JObj [(lit ''port'', JInt 8080)])
   \<and> \<not> fst (check_api_health (env_answering status_8080 (GetRaised (OtherError 0)) ok_response [])
            (dict_get [(lit ''port'', JInt 8080)] (lit ''port'')) ([] @ [ReadStatus]))
   \<and> fst (get_dash_api_port (env_answering status_8080 (GetRaised (OtherError 0)) ok_response []) [])
      = Inr None"
proof -
  let ?env = "env_answering status_8080 (GetRaised (OtherError 0)) ok_response []"
  have s: "status_file ?env [] = Loaded (JObj [(lit ''port'', JInt 8080)])"
    by (simp add: env_answering_def status_8080_def)
  have h: "\<not> fst (check_api_health ?env (dict_get [(lit ''port'', JInt 8080)] (lit ''port'')) ([] @ [ReadStatus]))"
    by (simp add: check_api_health_def env_answering_def)
  from discovery_confirms_port[of ?env "[]"] s h
  have "fst (get_dash_api_port ?env []) = Inr None" by blast
  with s h show ?thesis by blast
qed

text \<open>
  Any other exception of the read leaves \<open>get_dash_api_port\<close>: a file whose bytes are
  not valid UTF-8 raises \<open>UnicodeDecodeError\<close>, which the \<open>except\<close> clause does not
  name.
\<close>

lemma discovery_raises_on_other_read_error:
  "status_file env tr = ReadRaised (OtherError n)
   \<Longrightarrow> fst (get_dash_api_port env tr) = Inl (OtherError n)"
  by (simp add: get_dash_api_port_def)

text \<open>
  C4. The claim asks for absent whenever the status record is malformed or lacks a port
  field. On a status file that holds valid JSON which is not an object, here the array
  \<open>[]\<close>, the code does not return absent: \<open>status_data.get\<close> raises
  \<open>AttributeError\<close>, the \<open>except\<close> clause names \<open>FileNotFoundError\<close>,
  \<open>JSONDecodeError\<close> and \<open>KeyError\<close> (which \<open>.get\<close> never raises), and the
  exception leaves \<open>get_dash_api_port\<close>.
\<close>

theorem discovery_raises_on_non_object:
  "status_file (env_answering (Loaded (JArr [])) (Responded ok_response) ok_response []) [] = Loaded (JArr [])
   \<and> fst (get_dash_api_port (env_answering (Loaded (JArr [])) (Responded ok_response) ok_response []) [])
      = Inl AttributeError"
  by (simp add: get_dash_api_port_def env_answering_def)

section \<open>Error mapping in \<open>search_documentation\<close>\<close>

lemma search_documentation_status_error:
  assumes valid: "\<not> py_blank query" "\<not> py_blank ids" "1 \<le> max_results" "max_results \<le> 1000"
    and base: "working_api_base_url env tr = (Inr (Some base), tr1)"
    and resp: "http_get env tr1 (Search base query ids snippets max_results) = Responded r"
    and err: "\<not> (200 \<le> status_code r \<and> status_code r \<le> 299)"
  shows "search_documentation env query ids snippets max_results tr
    = (search_status_error env r, tr1 @ [Get (Search base query ids snippets max_results)])"
proof -
  have "raise_for_status r = Inl (HTTPStatusError r)"
    using err by (simp add: raise_for_status_def)
  with valid base resp show ?thesis
    by (simp add: search_documentation_def search_documentation_try_def bind_exn_def Let_def)
qed

text \<open>
  C7, as the code has it. When the arguments are valid, a base address was obtained and
  the search request got the response \<open>r\<close>: a status of 400 with a body containing
  both \<open>Docset with identifier\<close> and \<open>not found\<close> gives the unknown-identifier message;
  a status of 400 to 599 with a body matching none of the known texts gives a message
  that ends in the advice to ensure Dash is running and the API server is enabled.
\<close>

theorem search_error_mapping:
  assumes "\<not> py_blank query" "\<not> py_blank ids" "1 \<le> max_results" "max_results \<le> 1000"
    and "working_api_base_url env tr = (Inr (Some base), tr1)"
    and "http_get env tr1 (Search base query ids snippets max_results) = Responded r"
  shows "(status_code r = 400 \<and> py_in (lit ''Docset with identifier'') (resp_text r)
            \<and> py_in (lit ''not found'') (resp_text r)
          \<longrightarrow> search_error (fst (search_documentation env query ids snippets max_results tr))
                = Some invalid_docset_error)
    \<and> (400 \<le> status_code r \<and> status_code r \<le> 599
          \<and> \<not> (py_in (lit ''Docset with identifier'') (resp_text r) \<and> py_in (lit ''not found'') (resp_text r))
          \<and> \<not> py_in (lit ''No docsets found'') (resp_text r)
          \<and> \<not> py_in (lit ''API access blocked due to Dash trial expiration'') (resp_text r)
          \<longrightarrow> (\<exists>m. search_error (fst (search_documentation env query ids snippets max_results tr))
                      = Some (m @ generic_advice)))"
proof (intro conjI impI)
  assume a: "status_code r = 400 \<and> py_in (lit ''Docset with identifier'') (resp_text r)
            \<and> py_in (lit ''not found'') (resp_text r)"
  then have "\<not> (200 \<le> status_code r \<and> status_code r \<le> 299)" by simp
  from search_documentation_status_error[OF assms this] a
  show "search_error (fst (search_documentation env query ids snippets max_results tr))
                = Some invalid_docset_error"
    by (simp add: search_status_error_def search_failure_def invalid_docset_error_def)
next
  assume a: "400 \<le> status_code r \<and> status_code r \<le> 599
          \<and> \<not> (py_in (lit ''Docset with identifier'') (resp_text r) \<and> py_in (lit ''not found'') (resp_text r))
          \<and> \<not> py_in (lit ''No docsets found'') (resp_text r)
          \<and> \<not> py_in (lit ''API access blocked due to Dash trial expiration'') (resp_text r)"
  then have "\<not> (200 \<le> status_code r \<and> status_code r \<le> 299)" by simp
  from search_documentation_status_error[OF assms this]
  have eq: "fst (search_documentation env query ids snippets max_results tr) = search_status_error env r"
    by simp
  have "search_error (search_status_error env r) = Some ((lit ''Bad request: '' @ resp_text r) @ generic_advice)
      \<or> search_error (search_status_error env r) = Some ((lit ''Forbidden: '' @ resp_text r) @ generic_advice)
      \<or> search_error (search_status_error env r) = Some ((lit ''HTTP error: '' @ str_exn env (HTTPStatusError r)) @ generic_advice)"
    using a by (auto simp: search_status_error_def search_failure_def)
  with eq show "\<exists>m. search_error (fst (search_documentation env query ids snippets max_results tr))
                      = Some (m @ generic_advice)"
    by auto
qed

lemma base_8080:
  "working_api_base_url (env_answering status_8080 (Responded ok_response) r c) []
   = (Inr (Some (LocalHttp (JInt 8080))), [Pgrep, ReadStatus, Get (Health (JInt 8080))])"
  by (simp add: working_api_base_url_def ensure_dash_running_def check_dash_running_def
        get_dash_api_port_def check_api_health_def raise_for_status_def dict_get_def
        env_answering_def status_8080_def ok_response_def Let_def lit_def)

lemma py_blank_lit_foo: "\<not> py_blank (lit ''foo'')"
  by (simp add: py_blank_def py_strip_def lit_def py_isspace_def)

lemma py_blank_lit_bogus: "\<not> py_blank (lit ''bogus_id'')"
  by (simp add: py_blank_def py_strip_def lit_def py_isspace_def)

text \<open>An instance: the body \<open>Docset with identifier bogus_id not found\<close>.\<close>

theorem search_error_mapping_witness:
  "status_code docset_not_found_400 = 400
   \<and> py_in (lit ''Docset with identifier'') (resp_text docset_not_found_400)
   \<and> py_in (lit ''not found'') (resp_text docset_not_found_400)
   \<and> search_error (fst (search_documentation
        (env_answering status_8080 (Responded ok_response) docset_not_found_400 [])
        (lit ''foo'') (lit ''bogus_id'') True 100 []))
      = Some invalid_docset_error"
proof -
  let ?env = "env_answering status_8080 (Responded ok_response) docset_not_found_400 []"
  have r: "http_get ?env [Pgrep, ReadStatus, Get (Health (JInt 8080))]
      (Search (LocalHttp (JInt 8080)) (lit ''foo'') (lit ''bogus_id'') True 100)
      = Responded docset_not_found_400"
    by (simp add: env_answering_def)
  have s: "status_code docset_not_found_400 = 400"
    by (simp add: docset_not_found_400_def)
  have a: "py_in (lit ''Docset with identifier'') (resp_text docset_not_found_400)"
    by (simp add: docset_not_found_400_def lit_def)
  have b: "py_in (lit ''not found'') (resp_text docset_not_found_400)"
    by (simp add: docset_not_found_400_def lit_def)
  from search_error_mapping[OF py_blank_lit_foo py_blank_lit_bogus _ _ base_8080 r] s a b
  show ?thesis by simp
qed

text \<open>
  C7 as stated fails: a 400 response whose body is just \<open>not found\<close> gets the generic
  bad-request message, not the unknown-identifier message.
\<close>

theorem not_found_alone_is_generic:
  "status_code not_found_400 = 400
   \<and> py_in (lit ''not found'') (resp_text not_found_400)
   \<and> search_error (fst (search_documentation
        (env_answering status_8080 (Responded ok_response) not_found_400 [])
        (lit ''foo'') (lit ''bogus_id'') True 100 []))
      = Some (lit ''Bad request: not found. Please ensure Dash is running and the API server is enabled (in Dash Settings > Integration).'')
   \<and> search_error (fst (search_documentation
        (env_answering status_8080 (Responded ok_response) not_found_400 [])
        (lit ''foo'') (lit ''bogus_id'') True 100 []))
      \<noteq> Some invalid_docset_error"
proof -
  let ?env = "env_answering status_8080 (Responded ok_response) not_found_400 []"
  have r: "http_get ?env [Pgrep, ReadStatus, Get (Health (JInt 8080))]
      (Search (LocalHttp (JInt 8080)) (lit ''foo'') (lit ''bogus_id'') True 100)
      = Responded not_found_400"
    by (simp add: env_answering_def)
  have e: "\<not> (200 \<le> status_code not_found_400 \<and> status_code not_found_400 \<le> 299)"
    by (simp add: not_found_400_def)
  have "fst (search_documentation ?env (lit ''foo'') (lit ''bogus_id'') True 100 [])
      = search_status_error ?env not_found_400"
    using search_documentation_status_error[OF py_blank_lit_foo py_blank_lit_bogus _ _ base_8080 r e]
    by simp
  moreover have "search_error (search_status_error ?env not_found_400)
     = Some (lit ''Bad request: not found. Please ensure Dash is running and the API server is enabled (in Dash Settings > Integration).'')"
    by (simp add: search_status_error_def not_found_400_def search_failure_def generic_advice_def lit_def)
  moreover have "lit ''Bad request: not found. Please ensure Dash is running and the API server is enabled (in Dash Settings > Integration).'' \<noteq> invalid_docset_error"
    by (simp add: invalid_docset_error_def lit_def)
  moreover have "status_code not_found_400 = 400 \<and> py_in (lit ''not found'') (resp_text not_found_400)"
    by (simp add: not_found_400_def lit_def)
  ultimately show ?thesis by simp
qed

section \<open>\<open>enable_docset_fts\<close>\<close>

lemma py_blank_lit_python3: "\<not> py_blank (lit ''python3'')"
  by (simp add: py_blank_def py_strip_def lit_def py_isspace_def)

text \<open>
  C9, as the code has it. \<open>enable_docset_fts\<close> returns \<open>True\<close> exactly when the
  identifier is not blank, a base address is obtained, the enable-fts request gets a
  response of the success class, and the body of that response parses as JSON. The
  parsed value is not looked at. In every other case the result is \<open>False\<close>.
\<close>

theorem enable_docset_fts_true_iff:
  "fst (enable_docset_fts env identifier tr)
   \<longleftrightarrow> \<not> py_blank identifier
       \<and> (\<exists>base tr1 r result.
             working_api_base_url env tr = (Inr (Some base), tr1)
             \<and> http_get env tr1 (EnableFts base identifier) = Responded r
             \<and> 200 \<le> status_code r \<and> status_code r \<le> 299
             \<and> json_body r = Some result)"
  by (auto simp: enable_docset_fts_def enable_docset_fts_try_def raise_for_status_def
      response_json_def bind_exn_def
      split: prod.splits sum.splits option.splits http_outcome.splits if_splits)

text \<open>
  C9 as stated fails: with a non-blank identifier, a base address and a 200 response
  whose body is not JSON, the result is \<open>False\<close>.
\<close>

theorem enable_docset_fts_false_on_unparsed_body:
  "\<not> py_blank (lit ''python3'')
   \<and> working_api_base_url (env_answering status_8080 (Responded ok_response) ok_response []) []
       = (Inr (Some (LocalHttp (JInt 8080))), [Pgrep, ReadStatus, Get (Health (JInt 8080))])
   \<and> http_get (env_answering status_8080 (Responded ok_response) ok_response [])
        [Pgrep, ReadStatus, Get (Health (JInt 8080))]
        (EnableFts (LocalHttp (JInt 8080)) (lit ''python3'')) = Responded ok_response
   \<and> status_code ok_response = 200
   \<and> fst (enable_docset_fts (env_answering status_8080 (Responded ok_response) ok_response [])
            (lit ''python3'') []) = False"
proof -
  let ?env = "env_answering status_8080 (Responded ok_response) ok_response []"
  have g: "http_get ?env [Pgrep, ReadStatus, Get (Health (JInt 8080))]
        (EnableFts (LocalHttp (JInt 8080)) (lit ''python3'')) = Responded ok_response"
    by (simp add: env_answering_def)
  have ok: "raise_for_status ok_response = Inr ok_response"
    "response_json ok_response = Inl JSONDecodeError"
    by (simp_all add: raise_for_status_def response_json_def ok_response_def)
  have "enable_docset_fts_try ?env (lit ''python3'') []
      = (Inl JSONDecodeError,
         [Pgrep, ReadStatus, Get (Health (JInt 8080)),
          Get (EnableFts (LocalHttp (JInt 8080)) (lit ''python3''))])"
    by (simp add: enable_docset_fts_try_def base_8080 g ok bind_exn_def)
  then have f: "fst (enable_docset_fts ?env (lit ''python3'') []) = False"
    using py_blank_lit_python3 by (simp add: enable_docset_fts_def)
  have s: "status_code ok_response = 200" by (simp add: ok_response_def)
  from py_blank_lit_python3 base_8080 g s f show ?thesis by blast
qed

section \<open>\<open>fetch_documentation_content\<close>\<close>

lemma fetch_try_Inr:
  "fst (fetch_documentation_content_try env load_url tr) = Inr res
   \<Longrightarrow> c_load_url res = load_url \<and> c_error res = None"
  by (auto simp: fetch_documentation_content_try_def bind_exn_def
      split: http_outcome.splits sum.splits prod.splits)


lemma fetch_try_status_error:
  "http_get env tr (Fetch load_url) = Responded r
   \<Longrightarrow> \<not> (200 \<le> status_code r \<and> status_code r \<le> 299)
   \<Longrightarrow> fst (fetch_documentation_content_try env load_url tr) = Inl (HTTPStatusError r)"
proof -
  assume g: "http_get env tr (Fetch load_url) = Responded r"
    and e: "\<not> (200 \<le> status_code r \<and> status_code r \<le> 299)"
  from e have "raise_for_status r = Inl (HTTPStatusError r)"
    by (simp add: raise_for_status_def)
  with g show ?thesis
    by (simp add: fetch_documentation_content_try_def bind_exn_def)
qed
lemma fetch_error_msg_nonempty: "fetch_error_msg env e \<noteq> []"
  by (cases e) (simp_all add: fetch_error_msg_def lit_def)

lemma fetch_failure_message:
  assumes "\<not> py_blank load_url"
    and "fst (fetch_documentation_content_try env load_url tr) = Inl e"
  shows "fst (fetch_documentation_content env load_url tr)
    = content_failure load_url (fetch_error_msg env e)"
proof -
  obtain tr1 where t: "fetch_documentation_content_try env load_url tr = (Inl e, tr1)"
    using assms(2) by (cases "fetch_documentation_content_try env load_url tr") simp
  have "fetch_documentation_content env load_url tr
    = (case (Inl e, tr1) of
           (Inr res, tr1) \<Rightarrow> (res, tr1)
         | (Inl (HTTPStatusError r), tr1) \<Rightarrow>
             (content_failure load_url
                (lit ''HTTP error '' @ py_str_int (status_code r) @ lit '': '' @ reason_phrase r),
              tr1)
         | (Inl e, tr1) \<Rightarrow>
             (content_failure load_url (lit ''Failed to fetch content: '' @ str_exn env e), tr1))"
    using assms(1) by (simp only: fetch_documentation_content_def t if_False)
  then show ?thesis
    by (cases e) (simp_all add: fetch_error_msg_def)
qed

lemma error_result_content_failure: "m \<noteq> [] \<Longrightarrow> error_result load_url (content_failure load_url m)"
  by (simp add: error_result_def content_failure_def)

lemma sanitize_parse_raises:
  "parse_html env html = Inl e \<Longrightarrow> sanitize env html = Inl e"
  by (simp add: sanitize_def bind_exn_def)

lemma sanitize_convert_raises:
  "parse_html env html = Inr soup \<Longrightarrow> markdownify env (decompose_all unwanted soup) = Inl e
   \<Longrightarrow> sanitize env html = Inl e"
  by (simp add: sanitize_def bind_exn_def Let_def)

lemma sanitize_converts:
  "parse_html env html = Inr soup \<Longrightarrow> markdownify env (decompose_all unwanted soup) = Inr md
   \<Longrightarrow> \<exists>title. sanitize env html = Inr (title, clean_whitespace md)"
  by (simp add: sanitize_def bind_exn_def Let_def)

lemma fetch_try_get_raised:
  "http_get env tr (Fetch load_url) = GetRaised e
   \<Longrightarrow> fst (fetch_documentation_content_try env load_url tr) = Inl e"
  by (simp add: fetch_documentation_content_try_def)

lemma fetch_try_sanitize_raises:
  assumes "http_get env tr (Fetch load_url) = Responded r"
    and "200 \<le> status_code r \<and> status_code r \<le> 299"
    and "sanitize env (resp_text r) = Inl e"
  shows "fst (fetch_documentation_content_try env load_url tr) = Inl e"
proof -
  from assms(2) have "raise_for_status r = Inr r"
    by (simp add: raise_for_status_def)
  with assms(1,3) show ?thesis
    by (simp add: fetch_documentation_content_try_def bind_exn_def)
qed

lemma fetch_success:
  assumes "\<not> py_blank load_url"
    and "http_get env tr (Fetch load_url) = Responded r"
    and "200 \<le> status_code r \<and> status_code r \<le> 299"
    and "parse_html env (resp_text r) = Inr soup"
    and "markdownify env (decompose_all unwanted soup) = Inr md"
  shows "\<exists>title. fst (fetch_documentation_content env load_url tr)
    = \<lparr>c_load_url = load_url, c_title = title, c_content = clean_whitespace md, c_error = None\<rparr>"
proof -
  from assms(3) have ok: "raise_for_status r = Inr r"
    by (simp add: raise_for_status_def)
  from sanitize_converts[OF assms(4,5)] obtain title
    where s: "sanitize env (resp_text r) = Inr (title, clean_whitespace md)"
    by blast
  have "fetch_documentation_content_try env load_url tr
      = (Inr \<lparr>c_load_url = load_url, c_title = title, c_content = clean_whitespace md,
              c_error = None\<rparr>, tr @ [Get (Fetch load_url)])"
    using assms(2) ok s by (simp add: fetch_documentation_content_try_def bind_exn_def)
  with assms(1) show ?thesis
    by (simp add: fetch_documentation_content_def)
qed

lemma fetch_failure_result:
  assumes "\<not> py_blank load_url"
    and "fst (fetch_documentation_content_try env load_url tr) = Inl e"
  shows "error_result load_url (fst (fetch_documentation_content env load_url tr))
    \<and> c_error (fst (fetch_documentation_content env load_url tr)) = Some (fetch_error_msg env e)"
  using fetch_failure_message[OF assms] fetch_error_msg_nonempty[of env e]
  by (simp add: error_result_def content_failure_def)

text \<open>
  C10. The result of \<open>fetch_documentation_content\<close> always carries the \<open>load_url\<close>
  it was given. Every error path gives the title \<open>Error\<close>, empty content and an error
  field with a non-empty message: a blank \<open>load_url\<close>; a request that raises; a
  response outside the success class, with the message built from its status and reason
  phrase; a parser that raises; a converter that raises. A response of the success
  class that is parsed and converted gives the clean-up of the converted text and no
  error. These cases are all there are, so the operation returns a result in each.
\<close>

theorem fetch_documentation_content_result:
  "c_load_url (fst (fetch_documentation_content env load_url tr)) = load_url
   \<and> (py_blank load_url \<longrightarrow>
        error_result load_url (fst (fetch_documentation_content env load_url tr))
        \<and> c_error (fst (fetch_documentation_content env load_url tr))
            = Some (lit ''load_url cannot be empty''))
   \<and> (\<forall>e. \<not> py_blank load_url \<and> http_get env tr (Fetch load_url) = GetRaised e \<longrightarrow>
        error_result load_url (fst (fetch_documentation_content env load_url tr))
        \<and> c_error (fst (fetch_documentation_content env load_url tr))
            = Some (fetch_error_msg env e))
   \<and> (\<forall>r. \<not> py_blank load_url \<and> http_get env tr (Fetch load_url) = Responded r
            \<and> \<not> (200 \<le> status_code r \<and> status_code r \<le> 299) \<longrightarrow>
        error_result load_url (fst (fetch_documentation_content env load_url tr))
        \<and> c_error (fst (fetch_documentation_content env load_url tr))
            = Some (lit ''HTTP error '' @ py_str_int (status_code r) @ lit '': '' @ reason_phrase r))
   \<and> (\<forall>r e. \<not> py_blank load_url \<and> http_get env tr (Fetch load_url) = Responded r
            \<and> 200 \<le> status_code r \<and> status_code r \<le> 299
            \<and> parse_html env (resp_text r) = Inl e \<longrightarrow>
        error_result load_url (fst (fetch_documentation_content env load_url tr))
        \<and> c_error (fst (fetch_documentation_content env load_url tr))
            = Some (fetch_error_msg env e))
   \<and> (\<forall>r soup e. \<not> py_blank load_url \<and> http_get env tr (Fetch load_url) = Responded r
            \<and> 200 \<le> status_code r \<and> status_code r \<le> 299
            \<and> parse_html env (resp_text r) = Inr soup
            \<and> markdownify env (decompose_all unwanted soup) = Inl e \<longrightarrow>
        error_result load_url (fst (fetch_documentation_content env load_url tr))
        \<and> c_error (fst (fetch_documentation_content env load_url tr))
            = Some (fetch_error_msg env e))
   \<and> (\<forall>r soup md. \<not> py_blank load_url \<and> http_get env tr (Fetch load_url) = Responded r
            \<and> 200 \<le> status_code r \<and> status_code r \<le> 299
            \<and> parse_html env (resp_text r) = Inr soup
            \<and> markdownify env (decompose_all unwanted soup) = Inr md \<longrightarrow>
        c_error (fst (fetch_documentation_content env load_url tr)) = None
        \<and> c_content (fst (fetch_documentation_content env load_url tr)) = clean_whitespace md)"
proof -
  let ?R = "fst (fetch_documentation_content env load_url tr)"
  have url: "c_load_url ?R = load_url"
  proof (cases "py_blank load_url")
    case True
    then show ?thesis
      by (simp add: fetch_documentation_content_def content_failure_def)
  next
    case False
    show ?thesis
    proof (cases "fst (fetch_documentation_content_try env load_url tr)")
      case (Inl e)
      from fetch_failure_message[OF False Inl] show ?thesis
        by (simp add: content_failure_def)
    next
      case (Inr res)
      then have "?R = res"
        using False
        by (cases "fetch_documentation_content_try env load_url tr")
          (simp add: fetch_documentation_content_def)
      with fetch_try_Inr[OF Inr] show ?thesis by simp
    qed
  qed
  have blank: "py_blank load_url \<longrightarrow>
        error_result load_url ?R \<and> c_error ?R = Some (lit ''load_url cannot be empty'')"
    by (simp add: fetch_documentation_content_def content_failure_def error_result_def lit_def)
  have raised: "\<forall>e. \<not> py_blank load_url \<and> http_get env tr (Fetch load_url) = GetRaised e \<longrightarrow>
        error_result load_url ?R \<and> c_error ?R = Some (fetch_error_msg env e)"
    using fetch_failure_result fetch_try_get_raised by blast
  have status: "\<forall>r. \<not> py_blank load_url \<and> http_get env tr (Fetch load_url) = Responded r
            \<and> \<not> (200 \<le> status_code r \<and> status_code r \<le> 299) \<longrightarrow>
        error_result load_url ?R
        \<and> c_error ?R
            = Some (lit ''HTTP error '' @ py_str_int (status_code r) @ lit '': '' @ reason_phrase r)"
  proof (intro allI impI)
    fix r
    assume a: "\<not> py_blank load_url \<and> http_get env tr (Fetch load_url) = Responded r
            \<and> \<not> (200 \<le> status_code r \<and> status_code r \<le> 299)"
    then have "fst (fetch_documentation_content_try env load_url tr) = Inl (HTTPStatusError r)"
      using fetch_try_status_error by blast
    from fetch_failure_result[OF _ this] a
    show "error_result load_url ?R
        \<and> c_error ?R
            = Some (lit ''HTTP error '' @ py_str_int (status_code r) @ lit '': '' @ reason_phrase r)"
      by (simp add: fetch_error_msg_def)
  qed
  have parse: "\<forall>r e. \<not> py_blank load_url \<and> http_get env tr (Fetch load_url) = Responded r
            \<and> 200 \<le> status_code r \<and> status_code r \<le> 299
            \<and> parse_html env (resp_text r) = Inl e \<longrightarrow>
        error_result load_url ?R \<and> c_error ?R = Some (fetch_error_msg env e)"
    using fetch_failure_result fetch_try_sanitize_raises sanitize_parse_raises by blast
  have convert: "\<forall>r soup e. \<not> py_blank load_url \<and> http_get env tr (Fetch load_url) = Responded r
            \<and> 200 \<le> status_code r \<and> status_code r \<le> 299
            \<and> parse_html env (resp_text r) = Inr soup
            \<and> markdownify env (decompose_all unwanted soup) = Inl e \<longrightarrow>
        error_result load_url ?R \<and> c_error ?R = Some (fetch_error_msg env e)"
    using fetch_failure_result fetch_try_sanitize_raises sanitize_convert_raises by blast
  have success: "\<forall>r soup md. \<not> py_blank load_url \<and> http_get env tr (Fetch load_url) = Responded r
            \<and> 200 \<le> status_code r \<and> status_code r \<le> 299
            \<and> parse_html env (resp_text r) = Inr soup
            \<and> markdownify env (decompose_all unwanted soup) = Inr md \<longrightarrow>
        c_error ?R = None \<and> c_content ?R = clean_whitespace md"
  proof (intro allI impI)
    fix r soup md
    assume a: "\<not> py_blank load_url \<and> http_get env tr (Fetch load_url) = Responded r
            \<and> 200 \<le> status_code r \<and> status_code r \<le> 299
            \<and> parse_html env (resp_text r) = Inr soup
            \<and> markdownify env (decompose_all unwanted soup) = Inr md"
    then obtain title where "?R
      = \<lparr>c_load_url = load_url, c_title = title, c_content = clean_whitespace md, c_error = None\<rparr>"
      using fetch_success[of load_url env tr r soup md] by blast
    then show "c_error ?R = None \<and> c_content ?R = clean_whitespace md"
      by simp
  qed
  from url blank raised status parse convert success show ?thesis
    by (intro conjI)
qed

text \<open>
  Two instances: the page request raises; the page request is answered with status
  500.
\<close>

theorem fetch_documentation_content_result_witness:
  "\<not> py_blank page_url
   \<and> http_get env_unreachable [] (Fetch page_url) = GetRaised (OtherError 0)
   \<and> error_result page_url (fst (fetch_documentation_content env_unreachable page_url []))
   \<and> c_error (fst (fetch_documentation_content env_unreachable page_url []))
       = Some (lit ''Failed to fetch content: error'')
   \<and> http_get (env_answering status_8080 (Responded ok_response) server_error_500 []) []
        (Fetch page_url) = Responded server_error_500
   \<and> error_result page_url (fst (fetch_documentation_content
        (env_answering status_8080 (Responded ok_response) server_error_500 []) page_url []))
   \<and> c_error (fst (fetch_documentation_content
        (env_answering status_8080 (Responded ok_response) server_error_500 []) page_url []))
       = Some (lit ''HTTP error 500: Internal Server Error'')"
proof -
  let ?env = "env_answering status_8080 (Responded ok_response) server_error_500 []"
  have b: "\<not> py_blank page_url"
    by (simp add: page_url_def py_blank_def py_strip_def lit_def py_isspace_def)
  have g1: "http_get env_unreachable [] (Fetch page_url) = GetRaised (OtherError 0)"
    by (simp add: env_unreachable_def)
  have m1: "fetch_error_msg env_unreachable (OtherError 0) = lit ''Failed to fetch content: error''"
    by (simp add: fetch_error_msg_def env_unreachable_def lit_def)
  have g2: "http_get ?env [] (Fetch page_url) = Responded server_error_500"
    by (simp add: env_answering_def)
  have s2: "\<not> (200 \<le> status_code server_error_500 \<and> status_code server_error_500 \<le> 299)"
    by (simp add: server_error_500_def)
  have d: "digits 500 = [53, 48, 48]"
    by (simp add: digits.simps)
  have m2: "lit ''HTTP error '' @ py_str_int (status_code server_error_500) @ lit '': ''
        @ reason_phrase server_error_500 = lit ''HTTP error 500: Internal Server Error''"
    by (simp add: server_error_500_def py_str_int_def d lit_def)
  from fetch_documentation_content_result[of env_unreachable page_url "[]"] b g1 m1
  have w1: "error_result page_url (fst (fetch_documentation_content env_unreachable page_url []))
   \<and> c_error (fst (fetch_documentation_content env_unreachable page_url []))
       = Some (lit ''Failed to fetch content: error'')"
    by metis
  from fetch_documentation_content_result[of ?env page_url "[]"] b g2 s2 m2
  have w2: "error_result page_url (fst (fetch_documentation_content ?env page_url []))
   \<and> c_error (fst (fetch_documentation_content ?env page_url []))
       = Some (lit ''HTTP error 500: Internal Server Error'')"
    by metis
  from b g1 w1 g2 w2 show ?thesis by (intro conjI) simp_all
qed

section \<open>The whitespace clean-up\<close>

text \<open>Lines without trailing spaces and tabs, and \<open>strip_line_ends\<close>.\<close>

lemma is_blank_not_NL: "is_blank c \<Longrightarrow> c \<noteq> NL"
  by (auto simp: is_blank_def NL_def SP_def TAB_def)

lemma is_blank_isspace: "is_blank c \<Longrightarrow> py_isspace c"
  by (auto simp: is_blank_def py_isspace_def SP_def TAB_def)

lemma NL_isspace: "py_isspace NL"
  by (simp add: py_isspace_def NL_def)

lemma line_ends_clean_Cons:
  "line_ends_clean (c # t) \<longleftrightarrow> (is_blank c \<longrightarrow> t \<noteq> [] \<and> hd t \<noteq> NL) \<and> line_ends_clean t"
  by (cases t) auto

lemma line_ends_clean_suffix: "line_ends_clean (xs @ ys) \<Longrightarrow> line_ends_clean ys"
  by (induction xs) (auto simp: line_ends_clean_Cons)

lemma line_ends_clean_prefix:
  "line_ends_clean (p @ q) \<Longrightarrow> p = [] \<or> \<not> is_blank (last p) \<Longrightarrow> line_ends_clean p"
proof (induction p)
  case Nil
  then show ?case by simp
next
  case (Cons c p)
  then show ?case
    by (cases p) (auto simp: line_ends_clean_Cons)
qed

lemma blank_then_rest:
  "line_ends_clean (c # cs) \<Longrightarrow> is_blank c
   \<Longrightarrow> dropWhile is_blank cs \<noteq> [] \<and> hd (dropWhile is_blank cs) \<noteq> NL"
proof (induction cs arbitrary: c)
  case Nil
  then show ?case by simp
next
  case (Cons d ds)
  then show ?case
    by (cases "is_blank d") (auto simp: line_ends_clean_Cons)
qed

lemma strip_line_ends_fixed: "line_ends_clean s \<Longrightarrow> strip_line_ends s = s"
proof (induction s rule: strip_line_ends.induct)
  case 1
  then show ?case by simp
next
  case (2 c cs)
  have no: "\<not> (is_blank c \<and> (dropWhile is_blank cs = [] \<or> hd (dropWhile is_blank cs) = NL))"
    using blank_then_rest[OF "2.prems"] by blast
  have "line_ends_clean cs"
    using "2.prems" by (simp add: line_ends_clean_Cons)
  with "2.IH"(2) no have "strip_line_ends cs = cs" by blast
  with no show ?case by auto
qed

lemma strip_line_ends_head:
  "dropWhile is_blank cs \<noteq> [] \<Longrightarrow> hd (dropWhile is_blank cs) \<noteq> NL
   \<Longrightarrow> strip_line_ends cs \<noteq> [] \<and> hd (strip_line_ends cs) \<noteq> NL"
proof (cases cs)
  case Nil
  assume "dropWhile is_blank cs \<noteq> []"
  with Nil show ?thesis by simp
next
  case (Cons d ds)
  assume a: "dropWhile is_blank cs \<noteq> []" "hd (dropWhile is_blank cs) \<noteq> NL"
  show ?thesis
  proof (cases "is_blank d")
    case True
    with a Cons have "strip_line_ends cs = d # strip_line_ends ds" by auto
    with True is_blank_not_NL show ?thesis by simp
  next
    case False
    with a Cons show ?thesis by simp
  qed
qed

lemma strip_line_ends_clean: "line_ends_clean (strip_line_ends s)"
proof (induction s rule: strip_line_ends.induct)
  case 1
  then show ?case by simp
next
  case (2 c cs)
  show ?case
  proof (cases "is_blank c \<and> (dropWhile is_blank cs = [] \<or> hd (dropWhile is_blank cs) = NL)")
    case True
    with "2.IH"(1) show ?thesis by simp
  next
    case False
    then have eq: "strip_line_ends (c # cs) = c # strip_line_ends cs" by auto
    have "line_ends_clean (strip_line_ends cs)" using "2.IH"(2) False by blast
    moreover have "is_blank c \<longrightarrow> strip_line_ends cs \<noteq> [] \<and> hd (strip_line_ends cs) \<noteq> NL"
      using False strip_line_ends_head by blast
    ultimately show ?thesis
      unfolding eq by (simp add: line_ends_clean_Cons)
  qed
qed

text \<open>Runs of newlines, and \<open>collapse_newlines\<close>.\<close>

lemma py_in_sublist: "py_in sub s \<longleftrightarrow> sublist sub s"
  by (induction s) (simp_all add: sublist_Cons_right)

lemma run3_prefix:
  "3 \<le> length (takeWhile (\<lambda>x. x = NL) s) \<longleftrightarrow> prefix [NL, NL, NL] s"
proof (cases s)
  case Nil
  then show ?thesis by simp
next
  case s1: (Cons a s1)
  show ?thesis
  proof (cases s1)
    case Nil
    with s1 show ?thesis by simp
  next
    case s2: (Cons b s2)
    show ?thesis
    proof (cases s2)
      case Nil
      with s1 s2 show ?thesis by simp
    next
      case (Cons c s3)
      with s1 s2 show ?thesis by simp
    qed
  qed
qed

lemma collapse_newlines_run:
  "length (takeWhile (\<lambda>x. x = NL) (collapse_newlines s))
   = min 2 (length (takeWhile (\<lambda>x. x = NL) s))"
proof (induction s rule: collapse_newlines.induct)
  case 1
  then show ?case by simp
next
  case (2 c cs)
  show ?case
  proof (cases "3 \<le> length (takeWhile (\<lambda>x. x = NL) (c # cs))")
    case True
    have "takeWhile (\<lambda>x. x = NL) (dropWhile (\<lambda>x. x = NL) (c # cs)) = []"
      by (metis (mono_tags, lifting) dropWhile_eq_Nil_conv hd_dropWhile takeWhile.simps(1) takeWhile_eq_Nil_iff)
    with "2.IH"(1) True show ?thesis
      by simp
  next
    case False
    with "2.IH"(2) show ?thesis
      by (auto split: if_splits)
  qed
qed

lemma collapse_newlines_no_run: "\<not> py_in [NL, NL, NL] (collapse_newlines s)"
proof (induction s rule: collapse_newlines.induct)
  case 1
  then show ?case by simp
next
  case (2 c cs)
  have top: "\<not> prefix [NL, NL, NL] (collapse_newlines (c # cs))"
    using collapse_newlines_run[of "c # cs"] run3_prefix[of "collapse_newlines (c # cs)"]
    by simp
  show ?case
  proof (cases "3 \<le> length (takeWhile (\<lambda>x. x = NL) (c # cs))")
    case True
    let ?u = "collapse_newlines (dropWhile (\<lambda>x. x = NL) (c # cs))"
    have eq: "collapse_newlines (c # cs) = NL # NL # ?u"
      using True by simp
    have "takeWhile (\<lambda>x. x = NL) (dropWhile (\<lambda>x. x = NL) (c # cs)) = []"
      by (metis (mono_tags, lifting) dropWhile_eq_Nil_conv hd_dropWhile takeWhile.simps(1) takeWhile_eq_Nil_iff)
    then have "length (takeWhile (\<lambda>x. x = NL) ?u) = 0"
      using collapse_newlines_run[of "dropWhile (\<lambda>x. x = NL) (c # cs)"] by simp
    then have "length (takeWhile (\<lambda>x. x = NL) (NL # ?u)) = 1"
      by simp
    then have "\<not> prefix [NL, NL, NL] (NL # ?u)"
      using run3_prefix[of "NL # ?u"] by simp
    moreover have "\<not> py_in [NL, NL, NL] ?u"
      using "2.IH"(1) True by blast
    ultimately show ?thesis
      using top unfolding eq by simp
  next
    case False
    then have eq: "collapse_newlines (c # cs) = c # collapse_newlines cs"
      by simp
    have "\<not> py_in [NL, NL, NL] (collapse_newlines cs)"
      using "2.IH"(2) False by blast
    with top show ?thesis
      unfolding eq by simp
  qed
qed

lemma collapse_newlines_fixed: "\<not> py_in [NL, NL, NL] t \<Longrightarrow> collapse_newlines t = t"
proof (induction t rule: collapse_newlines.induct)
  case 1
  then show ?case by simp
next
  case (2 c cs)
  from "2.prems" have np: "\<not> prefix [NL, NL, NL] (c # cs)" and nin: "\<not> py_in [NL, NL, NL] cs"
    by simp_all
  from np have short: "\<not> 3 \<le> length (takeWhile (\<lambda>x. x = NL) (c # cs))"
    using run3_prefix[of "c # cs"] by simp
  with "2.IH"(2) nin have "collapse_newlines cs = cs" by blast
  with short show ?case by simp
qed

lemma collapse_newlines_idem: "collapse_newlines (collapse_newlines s) = collapse_newlines s"
  by (rule collapse_newlines_fixed) (rule collapse_newlines_no_run)

lemma collapse_newlines_hd:
  "s \<noteq> [] \<Longrightarrow> collapse_newlines s \<noteq> [] \<and> hd (collapse_newlines s) = hd s"
  by (cases s) (auto split: if_splits)

lemma collapse_newlines_Nil_iff: "collapse_newlines s = [] \<longleftrightarrow> s = []"
  using collapse_newlines_hd[of s] by (cases s) auto

lemma collapse_newlines_last: "s \<noteq> [] \<Longrightarrow> last (collapse_newlines s) = last s"
proof (induction s rule: collapse_newlines.induct)
  case 1
  then show ?case by simp
next
  case (2 c cs)
  show ?case
  proof (cases "3 \<le> length (takeWhile (\<lambda>x. x = NL) (c # cs))")
    case True
    let ?rest = "dropWhile (\<lambda>x. x = NL) (c # cs)"
    have eq: "collapse_newlines (c # cs) = NL # NL # collapse_newlines ?rest"
      using True by simp
    show ?thesis
    proof (cases "?rest = []")
      case True
      then have "\<forall>x \<in> set (c # cs). x = NL"
        unfolding dropWhile_eq_Nil_conv .
      then have "last (c # cs) = NL"
        by (metis last_in_set list.distinct(1))
      with eq True show ?thesis by simp
    next
      case False
      have "c # cs = takeWhile (\<lambda>x. x = NL) (c # cs) @ ?rest"
        by simp
      then have "last (c # cs) = last ?rest"
        using False by (metis last_appendR)
      moreover have "last (collapse_newlines ?rest) = last ?rest"
        using "2.IH"(1) True False by blast
      moreover have "collapse_newlines ?rest \<noteq> []"
        using False by (simp add: collapse_newlines_Nil_iff)
      ultimately show ?thesis
        unfolding eq by simp
    qed
  next
    case False
    then have eq: "collapse_newlines (c # cs) = c # collapse_newlines cs"
      by simp
    show ?thesis
    proof (cases cs)
      case Nil
      with eq show ?thesis by simp
    next
      case (Cons d ds)
      then have "last (collapse_newlines cs) = last cs"
        using "2.IH"(2) False by blast
      moreover have "collapse_newlines cs \<noteq> []"
        using Cons by (simp add: collapse_newlines_Nil_iff)
      ultimately show ?thesis
        unfolding eq using Cons by simp
    qed
  qed
qed

lemma collapse_newlines_clean:
  "line_ends_clean t \<Longrightarrow> line_ends_clean (collapse_newlines t)"
proof (induction t rule: collapse_newlines.induct)
  case 1
  then show ?case by simp
next
  case (2 c cs)
  show ?case
  proof (cases "3 \<le> length (takeWhile (\<lambda>x. x = NL) (c # cs))")
    case True
    let ?rest = "dropWhile (\<lambda>x. x = NL) (c # cs)"
    have eq: "collapse_newlines (c # cs) = NL # NL # collapse_newlines ?rest"
      using True by simp
    have "c # cs = takeWhile (\<lambda>x. x = NL) (c # cs) @ ?rest"
      by simp
    then have "line_ends_clean ?rest"
      using "2.prems" line_ends_clean_suffix by metis
    then have "line_ends_clean (collapse_newlines ?rest)"
      using "2.IH"(1) True by blast
    moreover have "\<not> is_blank NL"
      using is_blank_not_NL by blast
    ultimately show ?thesis
      unfolding eq by (simp add: line_ends_clean_Cons)
  next
    case False
    then have eq: "collapse_newlines (c # cs) = c # collapse_newlines cs"
      by simp
    have cs: "line_ends_clean cs" and c: "is_blank c \<longrightarrow> cs \<noteq> [] \<and> hd cs \<noteq> NL"
      using "2.prems" by (simp_all add: line_ends_clean_Cons)
    have "line_ends_clean (collapse_newlines cs)"
      using "2.IH"(2) False cs by blast
    moreover have "is_blank c \<longrightarrow> collapse_newlines cs \<noteq> [] \<and> hd (collapse_newlines cs) \<noteq> NL"
      using c collapse_newlines_hd[of cs] by auto
    ultimately show ?thesis
      unfolding eq by (simp add: line_ends_clean_Cons)
  qed
qed

text \<open>\<open>py_strip\<close>, and the three steps together.\<close>

lemma py_strip_split:
  "\<exists>a b. s = a @ py_strip s @ b"
proof -
  let ?v = "dropWhile py_isspace s"
  have "s = takeWhile py_isspace s @ ?v" by simp
  moreover have "rev ?v = takeWhile py_isspace (rev ?v) @ dropWhile py_isspace (rev ?v)"
    by simp
  then have "?v = rev (dropWhile py_isspace (rev ?v)) @ rev (takeWhile py_isspace (rev ?v))"
    by (metis rev_append rev_rev_ident)
  ultimately have "s = takeWhile py_isspace s @ py_strip s @ rev (takeWhile py_isspace (rev ?v))"
    by (simp add: py_strip_def)
  then show ?thesis by blast
qed

lemma py_strip_trimmed: "trimmed (py_strip s)"
proof (cases "py_strip s = []")
  case True
  then show ?thesis by (simp add: trimmed_def)
next
  case False
  let ?v = "dropWhile py_isspace s"
  let ?w = "dropWhile py_isspace (rev ?v)"
  have w: "?w \<noteq> []" using False by (simp add: py_strip_def)
  have v: "?v \<noteq> []"
  proof
    assume "?v = []"
    then have "?w = []" by (metis dropWhile.simps(1) rev.simps(1))
    with w show False by contradiction
  qed
  have hv: "\<not> py_isspace (hd ?v)" using v by (rule hd_dropWhile)
  have hw: "\<not> py_isspace (hd ?w)" using w by (rule hd_dropWhile)
  have "rev ?v = takeWhile py_isspace (rev ?v) @ ?w" by simp
  then have "last (rev ?v) = last ?w" using w by (metis last_appendR)
  then have "last ?w = hd ?v" using v by (simp add: last_rev)
  then have "hd (py_strip s) = hd ?v" using w by (simp add: py_strip_def hd_rev)
  moreover have "last (py_strip s) = hd ?w" using w by (simp add: py_strip_def last_rev)
  ultimately show ?thesis using hv hw by (simp add: trimmed_def)
qed

lemma trimmed_py_strip: "trimmed t \<Longrightarrow> py_strip t = t"
proof (cases "t = []")
  case True
  then show ?thesis by (simp add: py_strip_def)
next
  case False
  assume "trimmed t"
  with False have h: "\<not> py_isspace (hd t)" and l: "\<not> py_isspace (last t)"
    by (simp_all add: trimmed_def)
  from False h have d: "dropWhile py_isspace t = t"
    by (simp add: dropWhile_eq_self_iff)
  from False l have "dropWhile py_isspace (rev t) = rev t"
    by (simp add: dropWhile_eq_self_iff hd_rev)
  with d show ?thesis by (simp add: py_strip_def)
qed

lemma py_strip_clean: "line_ends_clean t \<Longrightarrow> line_ends_clean (py_strip t)"
proof -
  assume c: "line_ends_clean t"
  obtain a b where s: "t = a @ py_strip t @ b" using py_strip_split by blast
  with c have "line_ends_clean (py_strip t @ b)" using line_ends_clean_suffix by metis
  moreover have "py_strip t = [] \<or> \<not> is_blank (last (py_strip t))"
    using py_strip_trimmed[of t] is_blank_isspace by (auto simp: trimmed_def)
  ultimately show ?thesis by (rule line_ends_clean_prefix)
qed

lemma py_in_py_strip: "py_in sub (py_strip t) \<Longrightarrow> py_in sub t"
proof -
  assume "py_in sub (py_strip t)"
  then have "sublist sub (py_strip t)" by (simp add: py_in_sublist)
  moreover obtain a b where "t = a @ py_strip t @ b" using py_strip_split by blast
  then have "sublist (py_strip t) t" by (metis sublist_appendI)
  ultimately have "sublist sub t" by (rule sublist_order.order_trans)
  then show ?thesis by (simp add: py_in_sublist)
qed

lemma collapse_newlines_trimmed: "trimmed t \<Longrightarrow> trimmed (collapse_newlines t)"
proof (cases "t = []")
  case True
  then show ?thesis by (simp add: trimmed_def)
next
  case False
  assume "trimmed t"
  with False collapse_newlines_hd[OF False] collapse_newlines_last[OF False]
  show ?thesis by (simp add: trimmed_def)
qed

lemma clean_whitespace_props:
  "line_ends_clean (clean_whitespace s)" "trimmed (clean_whitespace s)"
  by (simp_all add: clean_whitespace_def py_strip_clean strip_line_ends_clean py_strip_trimmed)

lemma clean_whitespace_on_clean:
  assumes "line_ends_clean t" "trimmed t"
  shows "clean_whitespace t = collapse_newlines t"
proof -
  have "strip_line_ends (collapse_newlines t) = collapse_newlines t"
    using assms(1) by (simp add: collapse_newlines_clean strip_line_ends_fixed)
  moreover have "py_strip (collapse_newlines t) = collapse_newlines t"
    using assms(2) by (simp add: collapse_newlines_trimmed trimmed_py_strip)
  ultimately show ?thesis by (simp add: clean_whitespace_def)
qed

lemma clean_whitespace_no_run:
  assumes "line_ends_clean s"
  shows "\<not> blank_line_run (clean_whitespace s)"
proof -
  have "strip_line_ends (collapse_newlines s) = collapse_newlines s"
    using assms by (simp add: collapse_newlines_clean strip_line_ends_fixed)
  then have "clean_whitespace s = py_strip (collapse_newlines s)"
    by (simp add: clean_whitespace_def)
  then show ?thesis
    using py_in_py_strip[of "[NL, NL, NL]" "collapse_newlines s"] collapse_newlines_no_run[of s]
    by (auto simp: blank_line_run_def)
qed

text \<open>
  C5, as the code has it. A second application of the clean-up only collapses newlines:
  it equals \<open>collapse_newlines\<close> of the first result, so the result of the second
  application is a fixed point. The clean-up is idempotent on a text whose first result
  has no run of three newlines, and so on every text in which no line ends in a space
  or a tab.
\<close>

theorem clean_whitespace_second_pass:
  "clean_whitespace (clean_whitespace s) = collapse_newlines (clean_whitespace s)
   \<and> clean_whitespace (clean_whitespace (clean_whitespace s)) = clean_whitespace (clean_whitespace s)
   \<and> (\<not> blank_line_run (clean_whitespace s) \<longrightarrow> clean_whitespace (clean_whitespace s) = clean_whitespace s)
   \<and> (line_ends_clean s \<longrightarrow> clean_whitespace (clean_whitespace s) = clean_whitespace s)"
proof -
  have two: "\<And>u. clean_whitespace (clean_whitespace u) = collapse_newlines (clean_whitespace u)"
    by (rule clean_whitespace_on_clean) (rule clean_whitespace_props)+
  have three: "clean_whitespace (clean_whitespace (clean_whitespace s)) = clean_whitespace (clean_whitespace s)"
    using two[of "clean_whitespace s"] two[of s] by (simp add: collapse_newlines_idem)
  have norun: "\<not> blank_line_run (clean_whitespace s) \<longrightarrow> clean_whitespace (clean_whitespace s) = clean_whitespace s"
    using two[of s] by (simp add: blank_line_run_def collapse_newlines_fixed)
  have "line_ends_clean s \<longrightarrow> clean_whitespace (clean_whitespace s) = clean_whitespace s"
    using clean_whitespace_no_run[of s] norun by blast
  with two[of s] three norun show ?thesis by (intro conjI)
qed

lemmas example_defs = two_blank_only_lines_def four_newlines_def three_newlines_def
  two_newlines_def lit_def py_strip_def py_isspace_def is_blank_def NL_def SP_def TAB_def

lemma clean_two_blank_only_lines: "clean_whitespace two_blank_only_lines = three_newlines"
  by (simp add: clean_whitespace_def example_defs)

lemma clean_three_newlines: "clean_whitespace three_newlines = two_newlines"
  by (simp add: clean_whitespace_def example_defs)

lemma three_not_two_newlines: "two_newlines \<noteq> three_newlines"
  by (simp add: example_defs)


lemma clean_four_newlines: "clean_whitespace four_newlines = two_newlines"
  by (simp add: clean_whitespace_def example_defs)

lemma four_newlines_clean: "line_ends_clean four_newlines"
  by (simp add: example_defs)

text \<open>An instance: four newlines between \<open>a\<close> and \<open>b\<close> become two, and stay two.\<close>

theorem clean_whitespace_second_pass_witness:
  "line_ends_clean four_newlines
   \<and> clean_whitespace four_newlines = two_newlines
   \<and> clean_whitespace (clean_whitespace four_newlines) = clean_whitespace four_newlines"
  using clean_whitespace_second_pass[of four_newlines] four_newlines_clean clean_four_newlines
  by blast

text \<open>
  C5 as stated fails. Two lines of one space each between \<open>a\<close> and \<open>b\<close>: no run of
  three newlines is there to collapse, stripping the spaces leaves three newlines in a
  row, and a second application collapses them to two.
\<close>

theorem clean_whitespace_not_idempotent:
  "clean_whitespace (clean_whitespace two_blank_only_lines) \<noteq> clean_whitespace two_blank_only_lines"
  unfolding clean_two_blank_only_lines clean_three_newlines by (rule three_not_two_newlines)

section \<open>The sanitized content\<close>




lemma decompose_all_append:
  "decompose_all names (xs @ ys) = decompose_all names xs @ decompose_all names ys"
  by (induction names xs rule: decompose_all.induct) auto

lemma decompose_all_drops:
  "tag \<in> set names
   \<Longrightarrow> decompose_all names (pre @ Element tag attrs children # post) = decompose_all names (pre @ post)"
  by (simp add: decompose_all_append)









text \<open>
  A line that holds a carriage return is not empty, and the clean-up leaves it as it
  is: only the newline character ends a line here.
\<close>

lemma crlf_lines_kept:
  "line_ends_clean crlf_lines \<and> clean_whitespace crlf_lines = crlf_lines"
  by (simp add: clean_whitespace_def crlf_lines_def example_defs)



end
